theory Spec2Isabelle
  imports Complex_Main "HOL-Library.AList"
begin

section \<open>Python values used by the orchestrator\<close>

text \<open>
  A Python \<open>float\<close> is a finite number, one of the two infinities or NaN. Finite floats
  are modelled by the rational they denote (a decimal literal such as \<open>0.6\<close> denotes
  six tenths); rounding to binary64 is not modelled. The orchestrator only compares
  floats and takes \<open>min\<close> and \<open>max\<close>, none of which rounds.
\<close>

datatype pyfloat = NaN | NegInf | Fin rat | PosInf

text \<open>Python's \<open>a < b\<close> on floats: every comparison with NaN is false.\<close>

fun py_lt :: "pyfloat \<Rightarrow> pyfloat \<Rightarrow> bool" where
  "py_lt NaN _ = False"
| "py_lt _ NaN = False"
| "py_lt NegInf NegInf = False"
| "py_lt NegInf _ = True"
| "py_lt (Fin a) (Fin b) = (a < b)"
| "py_lt (Fin a) PosInf = True"
| "py_lt (Fin a) NegInf = False"
| "py_lt PosInf _ = False"

text \<open>
  Python's two-argument \<open>max(a, b)\<close> keeps \<open>a\<close> unless \<open>b > a\<close>, and \<open>min(a, b)\<close>
  keeps \<open>a\<close> unless \<open>b < a\<close>; so a NaN in first position is returned as it is.
\<close>

definition py_max :: "pyfloat \<Rightarrow> pyfloat \<Rightarrow> pyfloat" where
  "py_max a b = (if py_lt a b then b else a)"

definition py_min :: "pyfloat \<Rightarrow> pyfloat \<Rightarrow> pyfloat" where
  "py_min a b = (if py_lt b a then b else a)"

text \<open>
  The values \<open>json.loads\<close> returns, which are also the values the agents hand back.
  \<open>JObj\<close> holds the items of a \<open>dict\<close> in insertion order, its keys distinct.
\<close>

datatype json =
    JNull
  | JBool bool
  | JInt int
  | JFloat pyfloat
  | JStr string
  | JArr "json list"
  | JObj "(string \<times> json) list"

text \<open>\<open>len(x)\<close>; \<open>Inl\<close> is the message of the \<open>TypeError\<close> of a value without a length.\<close>

fun py_len :: "json \<Rightarrow> string + nat" where
  "py_len (JStr s) = Inr (length s)"
| "py_len (JArr xs) = Inr (length xs)"
| "py_len (JObj kvs) = Inr (length kvs)"
| "py_len JNull = Inl ''object of type 'NoneType' has no len()''"
| "py_len (JBool b) = Inl ''object of type 'bool' has no len()''"
| "py_len (JInt i) = Inl ''object of type 'int' has no len()''"
| "py_len (JFloat x) = Inl ''object of type 'float' has no len()''"

text \<open>
  \<open>x[0]\<close>: the first element of a list, the first character of a string; \<open>None\<close> is the
  \<open>IndexError\<close> of an empty sequence, the \<open>KeyError\<close> of a dict loaded from JSON (its
  keys are strings, never \<open>0\<close>) and the \<open>TypeError\<close> of the other values.
\<close>

fun py_getitem0 :: "json \<Rightarrow> json option" where
  "py_getitem0 (JArr (x # xs)) = Some x"
| "py_getitem0 (JStr (c # cs)) = Some (JStr [c])"
| "py_getitem0 _ = None"

text \<open>
  The elements a \<open>for\<close> loop over \<open>x\<close> visits: the elements of a list, the characters of
  a string, the keys of a dict.
\<close>

fun py_iter :: "json \<Rightarrow> json list option" where
  "py_iter (JArr xs) = Some xs"
| "py_iter (JStr s) = Some (map (\<lambda>c. JStr [c]) s)"
| "py_iter (JObj kvs) = Some (map (\<lambda>kv. JStr (fst kv)) kvs)"
| "py_iter _ = None"

text \<open>
  \<open>float(x)\<close>; \<open>None\<close> when it raises. The conversions of a string and of an integer
  are the parameters \<open>pf\<close> and \<open>pn\<close>: Python's \<open>float\<close> on \<open>str\<close>, which ignores
  surrounding white space and raises \<open>ValueError\<close> on a text that is no number, and
  Python's \<open>float\<close> on \<open>int\<close>, which rounds to the nearest float and raises
  \<open>OverflowError\<close> on an integer beyond the range of floats. A float is returned as
  it is, \<open>True\<close> and \<open>False\<close> become 1.0 and 0.0, and \<open>None\<close>, a list and a dict
  raise \<open>TypeError\<close>.
\<close>

fun py_float ::
  "(string \<Rightarrow> pyfloat option) \<Rightarrow> (int \<Rightarrow> pyfloat option) \<Rightarrow> json \<Rightarrow> pyfloat option" where
  "py_float pf pn (JFloat x) = Some x"
| "py_float pf pn (JInt i) = pn i"
| "py_float pf pn (JBool b) = Some (Fin (if b then 1 else 0))"
| "py_float pf pn (JStr s) = pf s"
| "py_float pf pn _ = None"

text \<open>
  The strings of a list whose elements all are strings; \<open>None\<close> when an element is not
  a \<open>str\<close>, where \<open>agent.title()\<close> raises \<open>AttributeError\<close>.
\<close>

fun py_str_list :: "json list \<Rightarrow> string list option" where
  "py_str_list [] = Some []"
| "py_str_list (JStr s # xs) = map_option ((#) s) (py_str_list xs)"
| "py_str_list (_ # xs) = None"

text \<open>Truth value of a Python object, as \<open>if not user_id\<close> reads it.\<close>

fun py_truthy :: "json \<Rightarrow> bool" where
  "py_truthy JNull = False"
| "py_truthy (JBool b) = b"
| "py_truthy (JInt i) = (i \<noteq> 0)"
| "py_truthy (JFloat x) = (x \<noteq> Fin 0)"
| "py_truthy (JStr s) = (s \<noteq> [])"
| "py_truthy (JArr xs) = (xs \<noteq> [])"
| "py_truthy (JObj kvs) = (kvs \<noteq> [])"


section \<open>The SSE progress tracker (views.py)\<close>

record sse_message =
  message :: string
  event :: string
  timestamp :: rat

record SSEProgressTracker =
  message_queue :: "sse_message list"
  is_active :: bool
  last_activity :: rat

text \<open>\<open>SSEProgressTracker.__init__\<close>; \<open>now\<close> is the reading of \<open>time.time()\<close>.\<close>

definition new_tracker :: "rat \<Rightarrow> SSEProgressTracker" where
  "new_tracker now = \<lparr>message_queue = [], is_active = True, last_activity = now\<rparr>"

text \<open>
  \<open>add_message\<close> reads the clock twice: \<open>now1\<close> for \<open>last_activity\<close>, \<open>now2\<close> for the
  time stamp of the queued message. \<open>Queue.put\<close> appends at the tail.
\<close>

definition add_message ::
  "rat \<Rightarrow> rat \<Rightarrow> string \<Rightarrow> string \<Rightarrow> SSEProgressTracker \<Rightarrow> SSEProgressTracker" where
  "add_message now1 now2 msg event_type t =
     (if is_active t
      then t\<lparr>last_activity := now1,
             message_queue := message_queue t @ [\<lparr>message = msg, event = event_type, timestamp = now2\<rparr>]\<rparr>
      else t)"

definition stop :: "SSEProgressTracker \<Rightarrow> SSEProgressTracker" where
  "stop t = t\<lparr>is_active := False\<rparr>"

text \<open>A sequence of \<open>add_message\<close> calls, each with its two clock readings.\<close>

fun add_messages ::
  "(rat \<times> rat \<times> string \<times> string) list \<Rightarrow> SSEProgressTracker \<Rightarrow> SSEProgressTracker" where
  "add_messages [] t = t"
| "add_messages ((now1, now2, msg, event_type) # cs) t =
     add_messages cs (add_message now1 now2 msg event_type t)"


section \<open>The orchestrator (farm_orchestrator.py)\<close>

subsection \<open>Session state, collaborators and the trace of a run\<close>

text \<open>
  \<open>AgentState\<close>, the dictionary the graph nodes pass along. The key
  \<open>progress_callback\<close> is left out: the nodes never read it (they call the
  orchestrator's own callback). Dictionaries are association lists in insertion order,
  written with \<open>AList.update\<close>, which replaces the value of a present key in place and
  appends an absent one, as assignment to a \<open>dict\<close> entry does.
\<close>

record AgentState =
  user_query :: string
  user_context :: "(string \<times> json) list"
  intent_classification :: string
  confidence_score :: pyfloat
  agent_responses :: "(string \<times> json) list"
  final_response :: string
  require_human_feedback :: bool
  agents_to_run :: "string list"

text \<open>
  What one invocation of a domain agent does inside its graph node: the agent's
  \<open>process\<close> returns a dictionary (\<open>Returns\<close>), or constructing or running the agent
  raises an exception with the given message inside the node's \<open>try\<close> block
  (\<open>Raises\<close>), or an exception leaves the node function itself (\<open>Escapes\<close>; it is
  taken to be raised on entry, before the node emits an event), which
  \<open>run_multiple_agents\<close> guards against and the single-agent route does not.
\<close>

datatype outcome = Returns json | Raises string | Escapes string

text \<open>
  The collaborators of one run. Each oracle call site is reached at most once in a
  run, so its reply is a value: the text of the response, or \<open>None\<close> when the call
  raises. \<open>json_loads\<close>, \<open>float_of_str\<close> and \<open>float_of_int\<close> are Python's
  \<open>json.loads\<close>, \<open>float\<close> on a string and \<open>float\<close> on an integer (\<open>None\<close> when
  they raise). \<open>agent_outcome i name\<close> is the outcome of invoking agent \<open>name\<close> at
  position \<open>i\<close> of the plan (position \<open>0\<close> on the single-agent route).
\<close>

record collaborators =
  classify_oracle :: "string option"
  json_loads :: "string \<Rightarrow> json option"
  float_of_str :: "string \<Rightarrow> pyfloat option"
  float_of_int :: "int \<Rightarrow> pyfloat option"
  agent_outcome :: "nat \<Rightarrow> string \<Rightarrow> outcome"
  decision_oracle :: "string option"
  verify_oracle :: "string option"
  notification_raises :: bool

text \<open>
  What the run reaches, recorded in order: the three oracle call sites, the entry into
  the node of an agent, the notification node turning to its collaborator, and
  \<open>_save_query_safely\<close> going on to look up the user and write the run.
\<close>

datatype call =
    OracleClassify
  | AgentNode string
  | OracleDecision
  | OracleVerify
  | NotifyCall
  | SaveRun

text \<open>
  The orchestrator object and the trace of the run: whether a progress callback is
  registered, the keep-alive flag, whether a keep-alive timer is armed, the event types
  handed to the callback (the message texts are not modelled) and the collaborator
  calls. The callback is taken not to raise.
\<close>

record orchestrator =
  progress_callback :: bool
  keep_alive_active :: bool
  keep_alive_timer :: bool
  events :: "string list"
  calls :: "call list"

definition send_progress :: "string \<Rightarrow> orchestrator \<Rightarrow> orchestrator" where
  "send_progress event_type w =
     (if progress_callback w then w\<lparr>events := events w @ [event_type]\<rparr> else w)"

definition record_call :: "call \<Rightarrow> orchestrator \<Rightarrow> orchestrator" where
  "record_call c w = w\<lparr>calls := calls w @ [c]\<rparr>"

text \<open>
  \<open>_schedule_keep_alive\<close> tests the flag and then creates and starts the timer. The
  two parts are separate definitions, because they are separate steps of the thread that
  runs them: nothing in the source (no lock) keeps another thread from running in
  between. \<open>arm_timer\<close> is the part after the test.
\<close>

definition arm_timer :: "orchestrator \<Rightarrow> orchestrator" where
  "arm_timer w = w\<lparr>keep_alive_timer := True\<rparr>"

definition schedule_keep_alive :: "orchestrator \<Rightarrow> orchestrator" where
  "schedule_keep_alive w = (if \<not> keep_alive_active w then w else arm_timer w)"

definition start_keep_alive :: "orchestrator \<Rightarrow> orchestrator" where
  "start_keep_alive w = schedule_keep_alive (w\<lparr>keep_alive_active := True\<rparr>)"

definition stop_keep_alive :: "orchestrator \<Rightarrow> orchestrator" where
  "stop_keep_alive w =
     (let w1 = w\<lparr>keep_alive_active := False\<rparr>
      in if keep_alive_timer w1 then w1\<lparr>keep_alive_timer := False\<rparr> else w1)"

text \<open>
  \<open>send_keep_alive\<close>, the function the timer thread calls when the timer fires. It
  tests the flag and then emits the event and schedules the next timer;
  \<open>emit_keep_alive\<close> is the part after the test. \<open>send_keep_alive\<close> itself is the
  function run from start to end with no other thread in between. \<open>Timer.cancel\<close> stops
  a timer that has not fired yet and does nothing to a timer function that is already
  running, so \<open>_stop_keep_alive\<close>, which the pipeline thread runs, can come between
  the test and \<open>emit_keep_alive\<close>.
\<close>

definition emit_keep_alive :: "orchestrator \<Rightarrow> orchestrator" where
  "emit_keep_alive w = schedule_keep_alive (send_progress ''keep_alive'' w)"

definition send_keep_alive :: "orchestrator \<Rightarrow> orchestrator" where
  "send_keep_alive w = (if keep_alive_active w then emit_keep_alive w else w)"


subsection \<open>Intent classification and routing\<close>

definition known_agents :: "string list" where
  "known_agents = [''market'', ''satellite'', ''weather'', ''pest'', ''soil'', ''search'']"

text \<open>
  The body of the \<open>try\<close> block of \<open>classify_intent\<close> after \<open>json.loads\<close>, in the
  source's order; \<open>None\<close> when any step raises. It yields the intent label, the elements
  of \<open>agents_needed\<close> as the later loops visit them, and the confidence. The last
  \<open>case\<close> only fixes the type of the label: when the length is 1 the label is the
  element on which \<open>title()\<close> has just succeeded, so it is a string.
\<close>

definition classify_result ::
  "(string \<Rightarrow> pyfloat option) \<Rightarrow> (int \<Rightarrow> pyfloat option) \<Rightarrow> json
   \<Rightarrow> (string \<times> string list \<times> pyfloat) option" where
  "classify_result pf pn result =
     (case result of
        JObj kvs \<Rightarrow>
          (let agents_needed = (case map_of kvs ''agents_needed'' of Some v \<Rightarrow> v | None \<Rightarrow> JArr [])
           in case py_len agents_needed of
                Inl e \<Rightarrow> None
              | Inr n \<Rightarrow>
                  (case (if n = 1 then py_getitem0 agents_needed else Some (JStr ''multiple'')) of
                     None \<Rightarrow> None
                   | Some intent \<Rightarrow>
                       (case py_float pf pn
                               (case map_of kvs ''confidence'' of Some v \<Rightarrow> v | None \<Rightarrow> JFloat (Fin (1 / 2))) of
                          None \<Rightarrow> None
                        | Some conf \<Rightarrow>
                            (case Option.bind (py_iter agents_needed) py_str_list of
                               None \<Rightarrow> None
                             | Some names \<Rightarrow>
                                 (case intent of
                                    JStr s \<Rightarrow> Some (s, names, conf)
                                  | _ \<Rightarrow> None)))))
      | _ \<Rightarrow> None)"

text \<open>The \<open>except\<close> branch of \<open>classify_intent\<close>.\<close>

definition classify_fallback :: "AgentState \<Rightarrow> orchestrator \<Rightarrow> AgentState \<times> orchestrator" where
  "classify_fallback st w =
     (st\<lparr>intent_classification := ''multiple'',
         agents_to_run := [''weather'', ''soil''],
         confidence_score := Fin (1 / 2),
         agent_responses := []\<rparr>,
      send_progress ''warning'' w)"

definition classify_intent ::
  "collaborators \<Rightarrow> AgentState \<Rightarrow> orchestrator \<Rightarrow> AgentState \<times> orchestrator" where
  "classify_intent env st w =
     (let w1 = record_call OracleClassify (send_progress ''agent_start'' w)
      in case classify_oracle env of
           None \<Rightarrow> classify_fallback st w1
         | Some text \<Rightarrow>
             (case json_loads env text of
                None \<Rightarrow> classify_fallback st w1
              | Some result \<Rightarrow>
                  (case classify_result (float_of_str env) (float_of_int env) result of
                     None \<Rightarrow> classify_fallback st w1
                   | Some (intent, names, conf) \<Rightarrow>
                       (st\<lparr>intent_classification := intent,
                           agents_to_run := names,
                           confidence_score := conf,
                           agent_responses := []\<rparr>,
                        send_progress ''intent_classified'' w1))))"

definition route_to_agents :: "AgentState \<Rightarrow> string" where
  "route_to_agents st =
     (if intent_classification st \<in> set known_agents then intent_classification st
      else ''multiple'')"

subsection \<open>The agent nodes\<close>

text \<open>
  The six \<open>run_<name>_agent\<close> methods differ only in their strings and in the error
  dictionary they build, so they share one body. A node returns the updated state, or
  \<open>Inl\<close> the message of an exception that leaves it.
\<close>

type_synonym node =
  "outcome \<Rightarrow> AgentState \<Rightarrow> orchestrator \<Rightarrow> (string + AgentState) \<times> orchestrator"

definition error_response :: "string \<Rightarrow> json \<Rightarrow> string \<Rightarrow> json" where
  "error_response error_text data recommendation =
     JObj [(''error'', JStr error_text), (''data'', data), (''recommendations'', JArr [JStr recommendation])]"

definition agent_node :: "string \<Rightarrow> (string \<Rightarrow> AgentState \<Rightarrow> json) \<Rightarrow> node" where
  "agent_node name on_error out st w =
     (let w0 = record_call (AgentNode name) w
      in case out of
           Escapes e \<Rightarrow> (Inl e, w0)
         | Returns result \<Rightarrow>
             (Inr (st\<lparr>agent_responses := AList.update name result (agent_responses st)\<rparr>),
              send_progress (name @ ''_agent_complete'') (send_progress (name @ ''_agent_start'') w0))
         | Raises e \<Rightarrow>
             (Inr (st\<lparr>agent_responses := AList.update name (on_error e st) (agent_responses st)\<rparr>),
              send_progress (name @ ''_agent_error'') (send_progress (name @ ''_agent_start'') w0)))"

definition run_market_agent :: node where
  "run_market_agent =
     agent_node ''market''
       (\<lambda>e st. error_response (''Market agent failed: '' @ e) (JObj [])
                  ''Unable to fetch market data due to error'')"

definition run_satellite_agent :: node where
  "run_satellite_agent =
     agent_node ''satellite''
       (\<lambda>e st. error_response (''Satellite agent failed: '' @ e) (JObj [])
                  ''Unable to fetch satellite data due to error'')"

definition run_weather_agent :: node where
  "run_weather_agent =
     agent_node ''weather''
       (\<lambda>e st. error_response (''Weather agent failed: '' @ e) (JObj [])
                  ''Unable to fetch weather data due to error'')"

definition run_pest_agent :: node where
  "run_pest_agent =
     agent_node ''pest''
       (\<lambda>e st. error_response (''Pest agent failed: '' @ e) (JObj [])
                  ''Unable to fetch pest data due to error'')"

definition run_soil_agent :: node where
  "run_soil_agent =
     agent_node ''soil''
       (\<lambda>e st. error_response (''Soil agent failed: '' @ e) (JObj [])
                  ''Unable to fetch soil data due to error'')"

definition run_search_agent :: node where
  "run_search_agent =
     agent_node ''search''
       (\<lambda>e st. error_response (''Search agent failed: '' @ e)
                  (JObj [(''original_query'', JStr (user_query st)),
                         (''optimized_query'', JStr []),
                         (''search_results'', JArr []),
                         (''result_count'', JInt 0),
                         (''search_answer'', JStr []),
                         (''sources'', JArr [])])
                  ''Unable to perform web search due to error'')"


subsection \<open>The multi-agent runner\<close>

definition agent_map :: "(string \<times> node) list" where
  "agent_map =
     [(''market'', run_market_agent),
      (''satellite'', run_satellite_agent),
      (''weather'', run_weather_agent),
      (''pest'', run_pest_agent),
      (''soil'', run_soil_agent),
      (''search'', run_search_agent)]"

text \<open>The dictionary stored by the \<open>except\<close> branch of the runner's loop.\<close>

definition execution_failed :: "string \<Rightarrow> string \<Rightarrow> json" where
  "execution_failed agent_name e =
     error_response (''Agent execution failed: '' @ e) (JObj [])
       (''Unable to get '' @ agent_name @ '' recommendations due to error'')"

text \<open>
  The response summary the runner prints after storing a response, inside its \<open>try\<close>
  block: \<open>Some\<close> the message of the \<open>TypeError\<close> that \<open>len(response['recommendations'])\<close>
  raises when the response is a dictionary whose \<open>recommendations\<close> have no length.
  The other lines of the summary cannot raise.
\<close>

definition summary_error :: "json \<Rightarrow> string option" where
  "summary_error response =
     (case response of
        JObj kvs \<Rightarrow>
          (case map_of kvs ''recommendations'' of
             Some v \<Rightarrow> (case py_len v of Inl e \<Rightarrow> Some e | Inr n \<Rightarrow> None)
           | None \<Rightarrow> None)
      | _ \<Rightarrow> None)"

text \<open>
  The loop of \<open>run_multiple_agents\<close> from position \<open>i\<close> on. \<open>acc\<close> is the local
  \<open>agent_responses\<close>. \<open>state.copy()\<close> is a shallow copy, so the node writes into the
  dictionary that \<open>state["agent_responses"]\<close> still refers to: the state of the next
  iteration carries the node's entries, and nothing else of the copy. When the summary
  raises, the \<open>except\<close> branch replaces the entry just stored. The loop returns the
  local result map, the state and the orchestrator as it leaves them.
\<close>

fun run_agents_loop ::
  "collaborators \<Rightarrow> nat \<Rightarrow> string list \<Rightarrow> AgentState \<Rightarrow> (string \<times> json) list \<Rightarrow> orchestrator
   \<Rightarrow> (string \<times> json) list \<times> AgentState \<times> orchestrator" where
  "run_agents_loop env i [] st acc w = (acc, st, w)"
| "run_agents_loop env i (agent_name # rest) st acc w =
     (case map_of agent_map agent_name of
        None \<Rightarrow> run_agents_loop env (Suc i) rest st acc (send_progress ''warning'' w)
      | Some run_agent \<Rightarrow>
          (case run_agent (agent_outcome env i agent_name) st (send_progress ''agent_running'' w) of
             (Inr temp_state, w1) \<Rightarrow>
               (case map_of (agent_responses temp_state) agent_name of
                  Some response \<Rightarrow>
                    (case summary_error response of
                       None \<Rightarrow>
                         run_agents_loop env (Suc i) rest
                           (st\<lparr>agent_responses := agent_responses temp_state\<rparr>)
                           (AList.update agent_name response acc)
                           (send_progress ''agent_complete'' w1)
                     | Some e \<Rightarrow>
                         run_agents_loop env (Suc i) rest
                           (st\<lparr>agent_responses := agent_responses temp_state\<rparr>)
                           (AList.update agent_name (execution_failed agent_name e)
                              (AList.update agent_name response acc))
                           (send_progress ''agent_error'' (send_progress ''agent_complete'' w1)))
                | None \<Rightarrow>
                    run_agents_loop env (Suc i) rest
                      (st\<lparr>agent_responses := agent_responses temp_state\<rparr>)
                      acc
                      (send_progress ''agent_warning'' w1))
           | (Inl e, w1) \<Rightarrow>
               run_agents_loop env (Suc i) rest st
                 (AList.update agent_name (execution_failed agent_name e) acc)
                 (send_progress ''agent_error'' w1)))"

definition run_multiple_agents ::
  "collaborators \<Rightarrow> AgentState \<Rightarrow> orchestrator \<Rightarrow> AgentState \<times> orchestrator" where
  "run_multiple_agents env st w =
     (case run_agents_loop env 1 (agents_to_run st) st [] (send_progress ''multiple_agents_start'' w) of
        (responses, st1, w1) \<Rightarrow>
          (st1\<lparr>agent_responses := responses\<rparr>, send_progress ''multiple_agents_complete'' w1))"

text \<open>
  The runner's local result map after the first \<open>n\<close> iterations of its loop, that is,
  after the loop has gone through the first \<open>n\<close> names of the plan.
\<close>

definition responses_after ::
  "collaborators \<Rightarrow> nat \<Rightarrow> AgentState \<Rightarrow> orchestrator \<Rightarrow> (string \<times> json) list" where
  "responses_after env n st w =
     fst (run_agents_loop env 1 (take n (agents_to_run st)) st []
            (send_progress ''multiple_agents_start'' w))"

text \<open>
  An agent result counts as a failure when it is a dictionary with the key \<open>error\<close>
  (the test the runner's summary uses); its message is the string under that key.
\<close>

definition is_failure :: "json \<Rightarrow> bool" where
  "is_failure r = (case r of JObj kvs \<Rightarrow> map_of kvs ''error'' \<noteq> None | _ \<Rightarrow> False)"

definition error_message :: "json \<Rightarrow> string" where
  "error_message r =
     (case r of
        JObj kvs \<Rightarrow> (case map_of kvs ''error'' of Some (JStr m) \<Rightarrow> m | _ \<Rightarrow> [])
      | _ \<Rightarrow> [])"

text \<open>The names of the agent nodes entered, in order, read off the call trace.\<close>

fun nodes_entered :: "call list \<Rightarrow> string list" where
  "nodes_entered [] = []"
| "nodes_entered (AgentNode name # cs) = name # nodes_entered cs"
| "nodes_entered (_ # cs) = nodes_entered cs"


subsection \<open>Decision, verification, confidence gate, notification\<close>

definition apology :: string where
  "apology = ''I apologize, but I couldn't gather the necessary information to answer your question. Please try again or rephrase your query.''"

definition make_decision ::
  "collaborators \<Rightarrow> AgentState \<Rightarrow> orchestrator \<Rightarrow> AgentState \<times> orchestrator" where
  "make_decision env st w =
     (let w1 = send_progress ''decision_start'' w
      in if agent_responses st = []
         then (st\<lparr>final_response := apology\<rparr>, send_progress ''warning'' w1)
         else (case decision_oracle env of
                 Some text \<Rightarrow>
                   (st\<lparr>final_response := text\<rparr>,
                    send_progress ''decision_complete'' (record_call OracleDecision w1))
               | None \<Rightarrow>
                   (st\<lparr>final_response := ''I encountered an error processing your request. Please try again.''\<rparr>,
                    send_progress ''decision_error'' (record_call OracleDecision w1))))"

text \<open>
  \<open>float_of_str env\<close> is applied to the text of the reply; the \<open>strip()\<close> of the source
  removes white space that \<open>float\<close> ignores anyway.
\<close>

definition verify_response ::
  "collaborators \<Rightarrow> AgentState \<Rightarrow> orchestrator \<Rightarrow> AgentState \<times> orchestrator" where
  "verify_response env st w =
     (let w1 = record_call OracleVerify (send_progress ''verifier_start'' w)
      in case Option.bind (verify_oracle env) (float_of_str env) of
           Some confidence \<Rightarrow>
             (st\<lparr>confidence_score := py_min (py_max confidence (Fin 0)) (Fin 1)\<rparr>,
              send_progress ''verifier_complete'' w1)
         | None \<Rightarrow> (st\<lparr>confidence_score := Fin (7 / 10)\<rparr>, send_progress ''warning'' w1))"

text \<open>The score \<open>verify_response\<close> stores, which depends on the collaborators alone.\<close>

definition verified_score :: "collaborators \<Rightarrow> pyfloat" where
  "verified_score env =
     (case Option.bind (verify_oracle env) (float_of_str env) of
        Some confidence \<Rightarrow> py_min (py_max confidence (Fin 0)) (Fin 1)
      | None \<Rightarrow> Fin (7 / 10))"

definition check_confidence :: "AgentState \<Rightarrow> AgentState" where
  "check_confidence st = st\<lparr>require_human_feedback := py_lt (confidence_score st) (Fin (6 / 10))\<rparr>"

definition confidence_check :: "AgentState \<Rightarrow> string" where
  "confidence_check st = (if require_human_feedback st then ''insufficient'' else ''sufficient'')"

definition send_notifications ::
  "collaborators \<Rightarrow> AgentState \<Rightarrow> orchestrator \<Rightarrow> AgentState \<times> orchestrator" where
  "send_notifications env st w =
     (let w1 = record_call NotifyCall (send_progress ''notification_start'' w)
      in (st, if notification_raises env then send_progress ''warning'' w1
              else send_progress ''notification_complete'' w1))"

subsection \<open>The graph and the entry point\<close>

text \<open>
  The workflow built by \<open>_build_graph\<close>, read along its edges. The conditional edge
  after \<open>check_confidence\<close> leads to the notification node on \<open>sufficient\<close> and to
  the end of the run otherwise.
\<close>

definition after_check_confidence ::
  "collaborators \<Rightarrow> AgentState \<Rightarrow> orchestrator \<Rightarrow> AgentState \<times> orchestrator" where
  "after_check_confidence env st w =
     (if confidence_check st = ''sufficient'' then send_notifications env st w else (st, w))"

text \<open>The edges \<open>verifier_agent\<close> to \<open>check_confidence\<close> to the conditional edge.\<close>

definition from_verifier ::
  "collaborators \<Rightarrow> AgentState \<Rightarrow> orchestrator \<Rightarrow> AgentState \<times> orchestrator" where
  "from_verifier env st w =
     (case verify_response env st w of
        (st1, w1) \<Rightarrow> after_check_confidence env (check_confidence st1) w1)"

text \<open>The edge \<open>decision_llm\<close> to \<open>verifier_agent\<close>, and on from there.\<close>

definition from_decision ::
  "collaborators \<Rightarrow> AgentState \<Rightarrow> orchestrator \<Rightarrow> AgentState \<times> orchestrator" where
  "from_decision env st w =
     (case make_decision env st w of (st1, w1) \<Rightarrow> from_verifier env st1 w1)"

text \<open>
  The conditional edge after \<open>classify_intent\<close>: the node chosen by the value of
  \<open>route_to_agents\<close>, which is one of the six agent names or \<open>multiple\<close>.
\<close>

definition execute_route ::
  "collaborators \<Rightarrow> string \<Rightarrow> AgentState \<Rightarrow> orchestrator \<Rightarrow> (string + AgentState) \<times> orchestrator" where
  "execute_route env route st w =
     (case map_of agent_map route of
        Some run_agent \<Rightarrow> run_agent (agent_outcome env 0 route) st w
      | None \<Rightarrow> (case run_multiple_agents env st w of (st1, w1) \<Rightarrow> (Inr st1, w1)))"

text \<open>\<open>self.graph.invoke\<close>: \<open>Inl\<close> when an exception leaves a node and ends the run.\<close>

definition graph_invoke ::
  "collaborators \<Rightarrow> AgentState \<Rightarrow> orchestrator \<Rightarrow> (string + AgentState) \<times> orchestrator" where
  "graph_invoke env st w =
     (case classify_intent env st w of
        (st1, w1) \<Rightarrow>
          (case execute_route env (route_to_agents st1) st1 w1 of
             (Inl e, w2) \<Rightarrow> (Inl e, w2)
           | (Inr st2, w2) \<Rightarrow>
               (case from_decision env st2 w2 of (st3, w3) \<Rightarrow> (Inr st3, w3))))"

text \<open>
  \<open>_save_query_safely\<close>: nothing is written without a user id; the write itself is
  wrapped in \<open>try\<close>/\<open>except\<close> and never raises.
\<close>

definition save_query_safely :: "(string \<times> json) list \<Rightarrow> orchestrator \<Rightarrow> orchestrator" where
  "save_query_safely ctx w =
     (if py_truthy (case map_of ctx ''user_id'' of Some v \<Rightarrow> v | None \<Rightarrow> JNull)
      then record_call SaveRun w else w)"

definition initial_state :: "string \<Rightarrow> (string \<times> json) list \<Rightarrow> AgentState" where
  "initial_state query ctx =
     \<lparr>user_query = query,
      user_context = ctx,
      intent_classification = [],
      confidence_score = Fin 0,
      agent_responses = [],
      final_response = [],
      require_human_feedback = False,
      agents_to_run = []\<rparr>"

text \<open>
  \<open>process_query\<close>; \<open>callback\<close> tells whether a progress callback is passed. The
  \<open>finally\<close> clause stops the keep-alive on both exits.
\<close>

definition process_query ::
  "collaborators \<Rightarrow> string \<Rightarrow> (string \<times> json) list \<Rightarrow> bool \<Rightarrow> orchestrator
   \<Rightarrow> (string + AgentState) \<times> orchestrator" where
  "process_query env query ctx callback w =
     (case graph_invoke env (initial_state query ctx)
             (start_keep_alive (w\<lparr>progress_callback := callback\<rparr>)) of
        (Inr result, w1) \<Rightarrow> (Inr result, stop_keep_alive (save_query_safely ctx w1))
      | (Inl e, w1) \<Rightarrow> (Inl e, stop_keep_alive w1))"

text \<open>An orchestrator as \<open>__init__\<close> leaves it, with an empty trace.\<close>

definition new_orchestrator :: "bool \<Rightarrow> orchestrator" where
  "new_orchestrator callback =
     \<lparr>progress_callback = callback, keep_alive_active = False, keep_alive_timer = False,
      events = [], calls = []\<rparr>"

text \<open>
  The orchestrator as the \<open>finally\<close> clause of \<open>process_query\<close> finds it, just before
  \<open>_stop_keep_alive\<close> runs, and the session as the classifier node leaves it in a run
  of \<open>process_query\<close>.
\<close>

definition before_stop ::
  "collaborators \<Rightarrow> string \<Rightarrow> (string \<times> json) list \<Rightarrow> bool \<Rightarrow> orchestrator \<Rightarrow> orchestrator" where
  "before_stop env query ctx callback w =
     (case graph_invoke env (initial_state query ctx)
             (start_keep_alive (w\<lparr>progress_callback := callback\<rparr>)) of
        (Inr result, w1) \<Rightarrow> save_query_safely ctx w1
      | (Inl e, w1) \<Rightarrow> w1)"


subsection \<open>The clamp in the specification's words\<close>

text \<open>
  The interval from 0 to 1, and what it is for \<open>r\<close> to be the score \<open>v\<close> clamped to
  it: 0 for a score below 0, 1 for a score above 1, and the score itself for a score
  inside. NaN is neither below 0, nor above 1, nor inside: nothing is its clamp.
\<close>

definition in_unit_interval :: "pyfloat \<Rightarrow> bool" where
  "in_unit_interval x = (case x of Fin q \<Rightarrow> 0 \<le> q \<and> q \<le> 1 | _ \<Rightarrow> False)"

definition clamped_to_unit :: "pyfloat \<Rightarrow> pyfloat \<Rightarrow> bool" where
  "clamped_to_unit v r =
     (if py_lt v (Fin 0) then r = Fin 0
      else if py_lt (Fin 1) v then r = Fin 1
      else in_unit_interval v \<and> r = v)"


subsection \<open>The classifier contract in the specification's words\<close>





subsection \<open>Example runs\<close>

text \<open>
  A run in which the classifier asks for weather, pest and soil, the pest agent raises,
  the synthesis oracle answers and the verifier scores the answer 0.8.
\<close>

definition example_reply_text :: string where
  \<open>example_reply_text = ''{"agents_needed": ["weather", "pest", "soil"], "confidence": 0.9}''\<close>

definition example_reply :: json where
  "example_reply =
     JObj [(''agents_needed'', JArr [JStr ''weather'', JStr ''pest'', JStr ''soil'']),
           (''confidence'', JFloat (Fin (9 / 10)))]"

text \<open>
  Python's \<open>float\<close> on the integers the examples convert: an integer of absolute value
  up to \<open>2 ^ 53\<close> is a float exactly, and \<open>10 ^ 400\<close> is beyond the range of floats.
  (Python rounds the integers in between; the examples convert none of them.)
\<close>

definition example_float_of_int :: "int \<Rightarrow> pyfloat option" where
  "example_float_of_int i = (if \<bar>i\<bar> \<le> 2 ^ 53 then Some (Fin (of_int i)) else None)"

definition example_env :: collaborators where
  "example_env =
     \<lparr>classify_oracle = Some example_reply_text,
      json_loads = (\<lambda>s. if s = example_reply_text then Some example_reply else None),
      float_of_str = (\<lambda>s. if s = ''0.8'' then Some (Fin (8 / 10))
                          else if s = ''0.3'' then Some (Fin (3 / 10))
                          else if s = ''1.7'' then Some (Fin (17 / 10)) else None),
      float_of_int = example_float_of_int,
      agent_outcome = (\<lambda>i name. if name = ''pest'' then Raises ''boom''
                                 else Returns (JObj [(''agent'', JStr name)])),
      decision_oracle = Some ''answer'',
      verify_oracle = Some ''0.8'',
      notification_raises = False\<rparr>"

text \<open>The same run with a verifier score of 0.3.\<close>

definition low_score_env :: collaborators where
  "low_score_env = example_env\<lparr>verify_oracle := Some ''0.3''\<rparr>"

text \<open>The same run with a verifier reply above the interval.\<close>

definition high_score_env :: collaborators where
  "high_score_env = example_env\<lparr>verify_oracle := Some ''1.7''\<rparr>"

text \<open>
  The same run with a verifier that replies \<open>nan\<close>, a text Python's \<open>float\<close> parses,
  to NaN.
\<close>

definition nan_env :: collaborators where
  "nan_env =
     example_env\<lparr>verify_oracle := Some ''nan'',
                 float_of_str := (\<lambda>s. if s = ''nan'' then Some NaN else None)\<rparr>"

text \<open>The same run with a classifier whose reply is not JSON and a verifier that raises.\<close>

definition outage_env :: collaborators where
  "outage_env = example_env\<lparr>classify_oracle := Some ''weather and soil'', verify_oracle := None\<rparr>"



text \<open>A classifier reply with an empty plan, with a confidence and with \<open>null\<close> for it.\<close>

definition empty_plan_text :: string where
  \<open>empty_plan_text = ''{"agents_needed": [], "confidence": 0.9}''\<close>

definition empty_plan_env :: collaborators where
  "empty_plan_env =
     example_env
       \<lparr>classify_oracle := Some empty_plan_text,
        json_loads := (\<lambda>s. if s = empty_plan_text
                            then Some (JObj [(''agents_needed'', JArr []), (''confidence'', JFloat (Fin (9 / 10)))])
                            else None)\<rparr>"

definition null_confidence_text :: string where
  \<open>null_confidence_text = ''{"agents_needed": [], "confidence": null}''\<close>

definition null_confidence_env :: collaborators where
  "null_confidence_env =
     example_env
       \<lparr>classify_oracle := Some null_confidence_text,
        json_loads := (\<lambda>s. if s = null_confidence_text
                            then Some (JObj [(''agents_needed'', JArr []), (''confidence'', JNull)])
                            else None)\<rparr>"


text \<open>
  A classifier reply with an empty plan and an integer confidence beyond the range of
  floats, on which \<open>float\<close> raises \<open>OverflowError\<close>.
\<close>

definition huge_confidence_text :: string where
  \<open>huge_confidence_text =
     ''{"agents_needed": [], "confidence": 1'' @ replicate 400 (CHR ''0'') @ ''}''\<close>

definition huge_confidence_env :: collaborators where
  "huge_confidence_env =
     example_env
       \<lparr>classify_oracle := Some huge_confidence_text,
        json_loads := (\<lambda>s. if s = huge_confidence_text
                            then Some (JObj [(''agents_needed'', JArr []), (''confidence'', JInt (10 ^ 400))])
                            else None)\<rparr>"



text \<open>A state whose plan names an unknown agent among three known ones.\<close>

definition example_plan_state :: AgentState where
  "example_plan_state =
     (initial_state ''q'' [])\<lparr>agents_to_run := [''weather'', ''pest'', ''bogus'', ''soil'']\<rparr>"


text \<open>
  The session and the trace the first example run ends with: the pest entry is the
  error dictionary of \<open>run_pest_agent\<close>, and the notification stage is reached.
\<close>

definition example_result :: AgentState where
  "example_result =
     \<lparr>user_query = ''q'', user_context = [],
      intent_classification = ''multiple'',
      confidence_score = Fin (8 / 10),
      agent_responses =
        [(''weather'', JObj [(''agent'', JStr ''weather'')]),
         (''pest'', JObj [(''error'', JStr ''Pest agent failed: boom''),
                          (''data'', JObj []),
                          (''recommendations'', JArr [JStr ''Unable to fetch pest data due to error''])]),
         (''soil'', JObj [(''agent'', JStr ''soil'')])],
      final_response = ''answer'',
      require_human_feedback = False,
      agents_to_run = [''weather'', ''pest'', ''soil'']\<rparr>"

definition example_trace :: orchestrator where
  "example_trace =
     \<lparr>progress_callback = True, keep_alive_active = False, keep_alive_timer = False,
      events =
        [''agent_start'', ''intent_classified'', ''multiple_agents_start'',
         ''agent_running'', ''weather_agent_start'', ''weather_agent_complete'', ''agent_complete'',
         ''agent_running'', ''pest_agent_start'', ''pest_agent_error'', ''agent_complete'',
         ''agent_running'', ''soil_agent_start'', ''soil_agent_complete'', ''agent_complete'',
         ''multiple_agents_complete'', ''decision_start'', ''decision_complete'',
         ''verifier_start'', ''verifier_complete'',
         ''notification_start'', ''notification_complete''],
      calls =
        [OracleClassify, AgentNode ''weather'', AgentNode ''pest'', AgentNode ''soil'',
         OracleDecision, OracleVerify, NotifyCall]\<rparr>"

text \<open>With the score 0.3 the run ends at the gate.\<close>

definition low_score_result :: AgentState where
  "low_score_result =
     example_result\<lparr>confidence_score := Fin (3 / 10), require_human_feedback := True\<rparr>"

definition low_score_trace :: orchestrator where
  "low_score_trace =
     example_trace
       \<lparr>events :=
          [''agent_start'', ''intent_classified'', ''multiple_agents_start'',
           ''agent_running'', ''weather_agent_start'', ''weather_agent_complete'', ''agent_complete'',
           ''agent_running'', ''pest_agent_start'', ''pest_agent_error'', ''agent_complete'',
           ''agent_running'', ''soil_agent_start'', ''soil_agent_complete'', ''agent_complete'',
           ''multiple_agents_complete'', ''decision_start'', ''decision_complete'',
           ''verifier_start'', ''verifier_complete''],
        calls :=
          [OracleClassify, AgentNode ''weather'', AgentNode ''pest'', AgentNode ''soil'',
           OracleDecision, OracleVerify]\<rparr>"

text \<open>
  The session and the trace of the run whose classifier reply has an empty plan and
  \<open>null\<close> for the confidence: the fallback plan is run.
\<close>

definition null_confidence_result :: AgentState where
  "null_confidence_result =
     \<lparr>user_query = ''q'', user_context = [],
      intent_classification = ''multiple'',
      confidence_score = Fin (8 / 10),
      agent_responses =
        [(''weather'', JObj [(''agent'', JStr ''weather'')]),
         (''soil'', JObj [(''agent'', JStr ''soil'')])],
      final_response = ''answer'',
      require_human_feedback = False,
      agents_to_run = [''weather'', ''soil'']\<rparr>"

definition null_confidence_trace :: orchestrator where
  "null_confidence_trace =
     \<lparr>progress_callback = True, keep_alive_active = False, keep_alive_timer = False,
      events =
        [''agent_start'', ''warning'', ''multiple_agents_start'',
         ''agent_running'', ''weather_agent_start'', ''weather_agent_complete'', ''agent_complete'',
         ''agent_running'', ''soil_agent_start'', ''soil_agent_complete'', ''agent_complete'',
         ''multiple_agents_complete'', ''decision_start'', ''decision_complete'',
         ''verifier_start'', ''verifier_complete'',
         ''notification_start'', ''notification_complete''],
      calls =
        [OracleClassify, AgentNode ''weather'', AgentNode ''soil'',
         OracleDecision, OracleVerify, NotifyCall]\<rparr>"


section \<open>Properties of the orchestrator\<close>

subsection \<open>Traces, nodes and the runner's loop\<close>

lemma calls_send_progress [simp]: "calls (send_progress k w) = calls w"
  by (simp add: send_progress_def)

lemma calls_record_call [simp]: "calls (record_call c w) = calls w @ [c]"
  by (simp add: record_call_def)

lemma flags_send_progress [simp]:
  "keep_alive_active (send_progress k w) = keep_alive_active w"
  "progress_callback (send_progress k w) = progress_callback w"
  by (simp_all add: send_progress_def)

lemma flags_record_call [simp]:
  "keep_alive_active (record_call c w) = keep_alive_active w"
  "progress_callback (record_call c w) = progress_callback w"
  by (simp_all add: record_call_def)

lemma nodes_entered_append: "nodes_entered (xs @ ys) = nodes_entered xs @ nodes_entered ys"
  by (induction xs rule: nodes_entered.induct) simp_all

lemma map_of_agent_map:
  "map_of agent_map name = Some run_agent \<Longrightarrow>
     name \<in> set known_agents \<and> (\<exists>on_error. run_agent = agent_node name on_error)"
  by (auto simp: agent_map_def known_agents_def run_market_agent_def run_satellite_agent_def
      run_weather_agent_def run_pest_agent_def run_soil_agent_def run_search_agent_def
      split: if_splits)

lemma map_of_agent_map_None:
  "map_of agent_map name = None \<longleftrightarrow> name \<notin> set known_agents"
  by (auto simp: agent_map_def known_agents_def)

lemma is_failure_error_response:
  "is_failure (error_response m d r) \<and> error_message (error_response m d r) = m"
  by (simp add: is_failure_def error_message_def error_response_def)

lemma summary_error_error_response: "summary_error (error_response m d r) = None"
  by (simp add: summary_error_def error_response_def)

lemma map_of_agent_map_failure:
  "map_of agent_map a = Some run_agent \<Longrightarrow>
     \<exists>f. run_agent = agent_node a f
       \<and> (\<forall>e st. is_failure (f e st) \<and> error_message (f e st) \<noteq> [] \<and> summary_error (f e st) = None)"
  unfolding agent_map_def run_market_agent_def run_satellite_agent_def
      run_weather_agent_def run_pest_agent_def run_soil_agent_def run_search_agent_def
  by (fastforce simp: is_failure_error_response summary_error_error_response split: if_splits)

lemma agent_node_calls:
  "agent_node name f out st w = (r, w') \<Longrightarrow> calls w' = calls w @ [AgentNode name]"
  by (auto simp: agent_node_def Let_def split: outcome.splits)

lemma agent_node_Inr:
  "agent_node name f out st w = (Inr st', w') \<Longrightarrow>
     \<exists>r. st' = st\<lparr>agent_responses := AList.update name r (agent_responses st)\<rparr>"
  by (auto simp: agent_node_def Let_def split: outcome.splits)


lemma agent_node_Escapes:
  "agent_node name f (Escapes e) st w = (Inl e, record_call (AgentNode name) w)"
  by (simp add: agent_node_def Let_def)

text \<open>One iteration of the loop on a known agent, in the three ways it can go.\<close>

lemma loop_step_known:
  assumes "map_of agent_map a = Some run_agent"
  shows "\<exists>r st' w'. run_agents_loop env i (a # rest) st acc w =
             run_agents_loop env (Suc i) rest st' (AList.update a r acc) w'
           \<and> st'\<lparr>agent_responses := []\<rparr> = st\<lparr>agent_responses := []\<rparr>
           \<and> calls w' = calls w @ [AgentNode a]
           \<and> keep_alive_active w' = keep_alive_active w \<and> progress_callback w' = progress_callback w
           \<and> (agent_outcome env i a = Raises e \<or> agent_outcome env i a = Escapes e
                \<longrightarrow> is_failure r \<and> error_message r \<noteq> [])"
proof -
  obtain f where n: "run_agent = agent_node a f"
    and fl: "\<And>e st. is_failure (f e st) \<and> error_message (f e st) \<noteq> [] \<and> summary_error (f e st) = None"
    using map_of_agent_map_failure [OF assms] by blast
  let ?w = "send_progress ''agent_running'' w"
  let ?w0 = "record_call (AgentNode a) ?w"
  show ?thesis
  proof (cases "agent_outcome env i a")
    case (Returns x)
    let ?st = "st\<lparr>agent_responses := AList.update a x (agent_responses st)\<rparr>"
    let ?w1 = "send_progress ''agent_complete''
      (send_progress (a @ ''_agent_complete'') (send_progress (a @ ''_agent_start'') ?w0))"
    have st: "?st\<lparr>agent_responses := []\<rparr> = st\<lparr>agent_responses := []\<rparr>" by simp
    show ?thesis
    proof (cases "summary_error x")
      case None
      have "run_agents_loop env i (a # rest) st acc w =
              run_agents_loop env (Suc i) rest ?st (AList.update a x acc) ?w1"
        using assms n Returns None by (simp add: agent_node_def Let_def update_conv')
      moreover have "calls ?w1 = calls w @ [AgentNode a]" by simp
      ultimately show ?thesis using Returns st
        by (intro exI [of _ x] exI [of _ ?st] exI [of _ ?w1]) simp
    next
      case (Some m)
      let ?w' = "send_progress ''agent_error'' ?w1"
      have "run_agents_loop env i (a # rest) st acc w =
              run_agents_loop env (Suc i) rest ?st (AList.update a (execution_failed a m) acc) ?w'"
        using assms n Returns Some by (simp add: agent_node_def Let_def update_conv')
      moreover have "calls ?w' = calls w @ [AgentNode a]" by simp
      ultimately show ?thesis using Returns st
        by (intro exI [of _ "execution_failed a m"] exI [of _ ?st] exI [of _ ?w']) simp
    qed
  next
    case (Raises x)
    let ?st = "st\<lparr>agent_responses := AList.update a (f x st) (agent_responses st)\<rparr>"
    let ?w' = "send_progress ''agent_complete''
      (send_progress (a @ ''_agent_error'') (send_progress (a @ ''_agent_start'') ?w0))"
    have "run_agents_loop env i (a # rest) st acc w =
            run_agents_loop env (Suc i) rest ?st (AList.update a (f x st) acc) ?w'"
      using assms n Raises fl by (simp add: agent_node_def Let_def update_conv')
    moreover have "?st\<lparr>agent_responses := []\<rparr> = st\<lparr>agent_responses := []\<rparr>" by simp
    moreover have "calls ?w' = calls w @ [AgentNode a]" by simp
    ultimately show ?thesis using fl
      by (intro exI [of _ "f x st"] exI [of _ ?st] exI [of _ ?w']) simp
  next
    case (Escapes x)
    let ?r = "execution_failed a x"
    let ?w' = "send_progress ''agent_error'' ?w0"
    have "run_agents_loop env i (a # rest) st acc w =
            run_agents_loop env (Suc i) rest st (AList.update a ?r acc) ?w'"
      using assms n Escapes by (simp add: agent_node_def Let_def)
    moreover have "calls ?w' = calls w @ [AgentNode a]" by simp
    moreover have "is_failure ?r \<and> error_message ?r \<noteq> []"
      by (simp add: execution_failed_def is_failure_error_response)
    ultimately show ?thesis
      by (intro exI [of _ ?r] exI [of _ st] exI [of _ ?w']) simp
  qed
qed

lemma loop_step_unknown:
  "map_of agent_map a = None \<Longrightarrow>
     run_agents_loop env i (a # rest) st acc w =
       run_agents_loop env (Suc i) rest st acc (send_progress ''warning'' w)"
  by simp


lemma loop_keys:
  "fst ` set (fst (run_agents_loop env i names st acc w)) =
     fst ` set acc \<union> (set names \<inter> set known_agents)"
proof (induction names arbitrary: i st acc w)
  case Nil
  show ?case by simp
next
  case (Cons a names)
  show ?case
  proof (cases "map_of agent_map a")
    case None
    then have "a \<notin> set known_agents" by (simp add: map_of_agent_map_None)
    then show ?thesis using Cons.IH by (simp only: loop_step_unknown [OF None]) auto
  next
    case (Some run_agent)
    then have k: "a \<in> set known_agents" using map_of_agent_map by blast
    obtain r st' w' where
      "run_agents_loop env i (a # names) st acc w =
         run_agents_loop env (Suc i) names st' (AList.update a r acc) w'"
      using loop_step_known [OF Some] by blast
    then show ?thesis using k Cons.IH by (auto simp: dom_update)
  qed
qed

lemma loop_calls:
  "calls (snd (snd (run_agents_loop env i names st acc w))) =
     calls w @ map AgentNode (filter (\<lambda>n. n \<in> set known_agents) names)"
proof (induction names arbitrary: i st acc w)
  case Nil
  show ?case by simp
next
  case (Cons a names)
  show ?case
  proof (cases "map_of agent_map a")
    case None
    then have "a \<notin> set known_agents" by (simp add: map_of_agent_map_None)
    then show ?thesis using Cons.IH by (simp only: loop_step_unknown [OF None]) simp
  next
    case (Some run_agent)
    then have k: "a \<in> set known_agents" using map_of_agent_map by blast
    obtain r st' w' where
      "run_agents_loop env i (a # names) st acc w =
         run_agents_loop env (Suc i) names st' (AList.update a r acc) w'"
      "calls w' = calls w @ [AgentNode a]"
      using loop_step_known [OF Some] by blast
    then show ?thesis using k Cons.IH by simp
  qed
qed

lemma nodes_entered_map [simp]: "nodes_entered (map AgentNode names) = names"
  by (induction names) simp_all

lemma loop_state:
  "(fst (snd (run_agents_loop env i names st acc w)))\<lparr>agent_responses := []\<rparr> =
     st\<lparr>agent_responses := []\<rparr>"
proof (induction names arbitrary: i st acc w)
  case Nil
  show ?case by simp
next
  case (Cons a names)
  show ?case
  proof (cases "map_of agent_map a")
    case None
    then show ?thesis using Cons.IH by (simp only: loop_step_unknown [OF None])
  next
    case (Some run_agent)
    obtain r st' w' where
      "run_agents_loop env i (a # names) st acc w =
         run_agents_loop env (Suc i) names st' (AList.update a r acc) w'"
      "st'\<lparr>agent_responses := []\<rparr> = st\<lparr>agent_responses := []\<rparr>"
      using loop_step_known [OF Some] by blast
    then show ?thesis using Cons.IH by simp
  qed
qed



subsection \<open>The runner as a whole\<close>

lemma run_multiple_agents_proj:
  "run_multiple_agents env st w =
     ((fst (snd (run_agents_loop env 1 (agents_to_run st) st [] (send_progress ''multiple_agents_start'' w))))
        \<lparr>agent_responses :=
           fst (run_agents_loop env 1 (agents_to_run st) st [] (send_progress ''multiple_agents_start'' w))\<rparr>,
      send_progress ''multiple_agents_complete''
        (snd (snd (run_agents_loop env 1 (agents_to_run st) st [] (send_progress ''multiple_agents_start'' w)))))"
  by (simp add: run_multiple_agents_def split: prod.splits)

lemma run_multiple_agents_state:
  "fst (run_multiple_agents env st w) =
     st\<lparr>agent_responses := agent_responses (fst (run_multiple_agents env st w))\<rparr>"
proof -
  obtain acc st1 w1 where l: "run_agents_loop env 1 (agents_to_run st) st []
      (send_progress ''multiple_agents_start'' w) = (acc, st1, w1)"
    by (cases "run_agents_loop env 1 (agents_to_run st) st [] (send_progress ''multiple_agents_start'' w)") auto
  have "st1\<lparr>agent_responses := []\<rparr> = st\<lparr>agent_responses := []\<rparr>"
    using loop_state [of env 1 "agents_to_run st" st "[]" "send_progress ''multiple_agents_start'' w"] l
    by simp
  then have "(st1\<lparr>agent_responses := []\<rparr>)\<lparr>agent_responses := acc\<rparr> =
      (st\<lparr>agent_responses := []\<rparr>)\<lparr>agent_responses := acc\<rparr>"
    by (rule arg_cong)
  then have "st1\<lparr>agent_responses := acc\<rparr> = st\<lparr>agent_responses := acc\<rparr>"
    by simp
  then show ?thesis using l by (simp add: run_multiple_agents_proj)
qed

lemma run_multiple_agents_responses:
  "agent_responses (fst (run_multiple_agents env st w)) =
     responses_after env (length (agents_to_run st)) st w"
  by (simp add: run_multiple_agents_proj responses_after_def)

lemma run_multiple_agents_calls:
  "calls (snd (run_multiple_agents env st w)) =
     calls w @ map AgentNode (filter (\<lambda>n. n \<in> set known_agents) (agents_to_run st))"
  using loop_calls [of env 1 "agents_to_run st" st "[]" "send_progress ''multiple_agents_start'' w"]
  by (simp add: run_multiple_agents_proj)


lemma run_multiple_agents_keys:
  "fst ` set (agent_responses (fst (run_multiple_agents env st w))) =
     set (agents_to_run st) \<inter> set known_agents
   \<and> agents_to_run (fst (run_multiple_agents env st w)) = agents_to_run st"
proof
  show "fst ` set (agent_responses (fst (run_multiple_agents env st w))) =
     set (agents_to_run st) \<inter> set known_agents"
    using loop_keys [of env 1 "agents_to_run st" st "[]" "send_progress ''multiple_agents_start'' w"]
    by (simp add: run_multiple_agents_proj)
  show "agents_to_run (fst (run_multiple_agents env st w)) = agents_to_run st"
    by (subst run_multiple_agents_state) simp
qed

subsection \<open>Classification\<close>

lemma py_str_list_Some: "py_str_list xs = Some names \<Longrightarrow> xs = map JStr names"
  by (induction xs arbitrary: names rule: py_str_list.induct) auto

lemma py_str_list_map [simp]: "py_str_list (map JStr names) = Some names"
  by (induction names) simp_all

lemma classify_shape_aux:
  assumes n: "py_len an = Inr n"
    and it: "(if n = 1 then py_getitem0 an else Some (JStr ''multiple'')) = Some (JStr intent)"
    and xs: "py_iter an = Some xs" "py_str_list xs = Some names"
  shows "names = [intent] \<or> (length names \<noteq> 1 \<and> intent = ''multiple'')"
proof -
  have xs': "xs = map JStr names" using xs(2) by (rule py_str_list_Some)
  show ?thesis
  proof (cases an)
    case (JArr ys)
    then show ?thesis using n it xs(1) xs'
      by (cases names) (auto split: if_splits)
  next
    case (JStr s)
    then show ?thesis using n it xs(1) xs'
      by (cases s) (auto split: if_splits)
  next
    case (JObj kvs')
    then show ?thesis using n it xs(1) xs'
      by (auto split: if_splits dest: map_eq_imp_length_eq)
  qed (use n in simp_all)
qed

lemma classify_result_shape:
  assumes "classify_result pf pn r = Some (intent, names, conf)"
  shows "names = [intent] \<or> (length names \<noteq> 1 \<and> intent = ''multiple'')"
proof (cases r)
  case (JObj kvs)
  show ?thesis
  proof (cases "map_of kvs ''agents_needed''")
    case None
    then show ?thesis using assms JObj
      by (auto simp: classify_result_def split: option.splits)
  next
    case (Some an)
    then show ?thesis using assms JObj
      by (auto simp: classify_result_def split: option.splits sum.splits json.splits Option.bind_splits
          dest: classify_shape_aux)
  qed
qed (use assms in \<open>simp_all add: classify_result_def\<close>)

lemma classify_intent_cases:
  "classify_intent env st w =
      classify_fallback st (record_call OracleClassify (send_progress ''agent_start'' w))
   \<or> (\<exists>text result intent names conf.
         classify_oracle env = Some text \<and> json_loads env text = Some result
         \<and> classify_result (float_of_str env) (float_of_int env) result = Some (intent, names, conf)
         \<and> classify_intent env st w =
             (st\<lparr>intent_classification := intent, agents_to_run := names,
                 confidence_score := conf, agent_responses := []\<rparr>,
              send_progress ''intent_classified''
                (record_call OracleClassify (send_progress ''agent_start'' w))))"
  by (auto simp: classify_intent_def Let_def split: option.splits)

lemma classify_intent_fallback:
  "classify_oracle env = None \<or> (\<exists>text. classify_oracle env = Some text \<and> json_loads env text = None)
   \<Longrightarrow> classify_intent env st w =
         classify_fallback st (record_call OracleClassify (send_progress ''agent_start'' w))"
  by (auto simp: classify_intent_def Let_def)

lemma classify_intent_calls: "calls (snd (classify_intent env st w)) = calls w @ [OracleClassify]"
  using classify_intent_cases [of env st w] by (auto simp: classify_fallback_def)

lemma classify_intent_plan:
  "agent_responses (fst (classify_intent env st w)) = []
   \<and> (intent_classification (fst (classify_intent env st w)) \<in> set known_agents \<longrightarrow>
        agents_to_run (fst (classify_intent env st w)) =
          [intent_classification (fst (classify_intent env st w))])"
proof -
  have m: "''multiple'' \<notin> set known_agents" by (simp add: known_agents_def)
  from classify_intent_cases [of env st w] show ?thesis
  proof
    assume "classify_intent env st w =
      classify_fallback st (record_call OracleClassify (send_progress ''agent_start'' w))"
    then show ?thesis using m by (simp add: classify_fallback_def)
  next
    assume "\<exists>text result intent names conf.
         classify_oracle env = Some text \<and> json_loads env text = Some result
         \<and> classify_result (float_of_str env) (float_of_int env) result = Some (intent, names, conf)
         \<and> classify_intent env st w =
             (st\<lparr>intent_classification := intent, agents_to_run := names,
                 confidence_score := conf, agent_responses := []\<rparr>,
              send_progress ''intent_classified''
                (record_call OracleClassify (send_progress ''agent_start'' w)))"
    then obtain result intent names conf where
      r: "classify_result (float_of_str env) (float_of_int env) result = Some (intent, names, conf)"
      and c: "classify_intent env st w =
             (st\<lparr>intent_classification := intent, agents_to_run := names,
                 confidence_score := conf, agent_responses := []\<rparr>,
              send_progress ''intent_classified''
                (record_call OracleClassify (send_progress ''agent_start'' w)))"
      by blast
    from classify_result_shape [OF r] have "intent \<in> set known_agents \<longrightarrow> names = [intent]"
      using m by auto
    then show ?thesis using c by simp
  qed
qed


subsection \<open>Decision, verification and the gate\<close>

lemma calls_start_keep_alive [simp]: "calls (start_keep_alive w) = calls w"
  by (simp add: start_keep_alive_def schedule_keep_alive_def arm_timer_def)

lemma calls_stop_keep_alive [simp]: "calls (stop_keep_alive w) = calls w"
  by (simp add: stop_keep_alive_def Let_def)

lemma calls_save_query_safely:
  "calls (save_query_safely ctx w) = calls w \<or> calls (save_query_safely ctx w) = calls w @ [SaveRun]"
  by (simp add: save_query_safely_def)

lemma make_decision_empty:
  "agent_responses st = [] \<Longrightarrow>
     make_decision env st w =
       (st\<lparr>final_response := apology\<rparr>, send_progress ''warning'' (send_progress ''decision_start'' w))"
  by (simp add: make_decision_def Let_def)

lemma make_decision_state:
  "fst (make_decision env st w) = st\<lparr>final_response := final_response (fst (make_decision env st w))\<rparr>"
  by (simp add: make_decision_def Let_def split: option.splits)

lemma make_decision_calls:
  "calls (snd (make_decision env st w)) =
     calls w @ (if agent_responses st = [] then [] else [OracleDecision])"
  by (simp add: make_decision_def Let_def split: option.splits)

lemma verify_response_eq:
  "verify_response env st w =
     (st\<lparr>confidence_score := verified_score env\<rparr>,
      send_progress (case Option.bind (verify_oracle env) (float_of_str env) of
                       Some c \<Rightarrow> ''verifier_complete'' | None \<Rightarrow> ''warning'')
        (record_call OracleVerify (send_progress ''verifier_start'' w)))"
  by (simp add: verify_response_def verified_score_def Let_def split: option.splits)

lemma from_verifier_state:
  "fst (from_verifier env st w) =
     st\<lparr>confidence_score := verified_score env,
        require_human_feedback := py_lt (verified_score env) (Fin (6 / 10))\<rparr>"
  by (simp add: from_verifier_def verify_response_eq after_check_confidence_def check_confidence_def
      confidence_check_def send_notifications_def Let_def)

lemma from_verifier_calls:
  "calls (snd (from_verifier env st w)) =
     calls w @ OracleVerify # (if py_lt (verified_score env) (Fin (6 / 10)) then [] else [NotifyCall])"
  by (simp add: from_verifier_def verify_response_eq after_check_confidence_def check_confidence_def
      confidence_check_def send_notifications_def Let_def)

lemma from_decision_state:
  "fst (from_decision env st w) =
     st\<lparr>final_response := final_response (fst (make_decision env st w)),
        confidence_score := verified_score env,
        require_human_feedback := py_lt (verified_score env) (Fin (6 / 10))\<rparr>"
proof -
  obtain st1 w1 where m: "make_decision env st w = (st1, w1)"
    by (cases "make_decision env st w")
  then have "st1 = st\<lparr>final_response := final_response st1\<rparr>"
    using make_decision_state [of env st w] by simp
  then show ?thesis using m from_verifier_state [of env st1 w1]
    by (simp add: from_decision_def)
qed


lemma from_decision_calls:
  "calls (snd (from_decision env st w)) =
     calls w @ (if agent_responses st = [] then [] else [OracleDecision])
       @ OracleVerify # (if py_lt (verified_score env) (Fin (6 / 10)) then [] else [NotifyCall])"
proof -
  obtain st1 w1 where m: "make_decision env st w = (st1, w1)"
    by (cases "make_decision env st w")
  then show ?thesis using make_decision_calls [of env st w] from_verifier_calls [of env st1 w1]
    by (simp add: from_decision_def)
qed

subsection \<open>Routing and the whole run\<close>

lemma route_to_agents_cases:
  "(intent_classification st \<in> set known_agents \<and> route_to_agents st = intent_classification st)
   \<or> (intent_classification st \<notin> set known_agents \<and> route_to_agents st = ''multiple'')"
  by (simp add: route_to_agents_def)

lemma execute_route_multiple:
  "intent_classification st \<notin> set known_agents \<Longrightarrow>
     execute_route env (route_to_agents st) st w =
       (Inr (fst (run_multiple_agents env st w)), snd (run_multiple_agents env st w))"
proof -
  assume "intent_classification st \<notin> set known_agents"
  then have "route_to_agents st = ''multiple''" by (simp add: route_to_agents_def)
  moreover have "map_of agent_map ''multiple'' = None"
    by (simp add: map_of_agent_map_None known_agents_def)
  ultimately show ?thesis by (simp add: execute_route_def split: prod.splits)
qed

lemma execute_route_single:
  assumes "intent_classification st \<in> set known_agents"
  shows "\<exists>f. execute_route env (route_to_agents st) st w =
           agent_node (intent_classification st) f (agent_outcome env 0 (intent_classification st)) st w"
proof -
  have r: "route_to_agents st = intent_classification st"
    using assms by (simp add: route_to_agents_def)
  obtain run_agent where m: "map_of agent_map (intent_classification st) = Some run_agent"
    using assms map_of_agent_map_None by (cases "map_of agent_map (intent_classification st)") auto
  then obtain f where "run_agent = agent_node (intent_classification st) f"
    using map_of_agent_map by blast
  then show ?thesis using r m by (auto simp: execute_route_def)
qed

lemma execute_route_calls:
  assumes "intent_classification st \<in> set known_agents \<longrightarrow> agents_to_run st = [intent_classification st]"
  shows "calls (snd (execute_route env (route_to_agents st) st w)) =
           calls w @ map AgentNode (filter (\<lambda>n. n \<in> set known_agents) (agents_to_run st))"
proof (cases "intent_classification st \<in> set known_agents")
  case True
  then obtain f where "execute_route env (route_to_agents st) st w =
      agent_node (intent_classification st) f (agent_outcome env 0 (intent_classification st)) st w"
    using execute_route_single by blast
  then show ?thesis using True assms
    agent_node_calls [of "intent_classification st" f "agent_outcome env 0 (intent_classification st)" st w]
    by (cases "agent_node (intent_classification st) f (agent_outcome env 0 (intent_classification st)) st w")
       simp
next
  case False
  then show ?thesis by (simp add: execute_route_multiple run_multiple_agents_calls)
qed

lemma execute_route_Inr:
  assumes "execute_route env (route_to_agents st) st w = (Inr st2, w2)"
    and "agent_responses st = []"
    and "intent_classification st \<in> set known_agents \<longrightarrow> agents_to_run st = [intent_classification st]"
  shows "st2 = st\<lparr>agent_responses := agent_responses st2\<rparr>
       \<and> fst ` set (agent_responses st2) = set (agents_to_run st) \<inter> set known_agents"
proof (cases "intent_classification st \<in> set known_agents")
  case True
  then obtain f where "execute_route env (route_to_agents st) st w =
      agent_node (intent_classification st) f (agent_outcome env 0 (intent_classification st)) st w"
    using execute_route_single by blast
  then have "agent_node (intent_classification st) f (agent_outcome env 0 (intent_classification st)) st w
      = (Inr st2, w2)"
    using assms(1) by simp
  then obtain r where "st2 = st\<lparr>agent_responses := AList.update (intent_classification st) r (agent_responses st)\<rparr>"
    using agent_node_Inr by blast
  then show ?thesis using True assms(2,3) by auto
next
  case False
  then have "st2 = fst (run_multiple_agents env st w)"
    using assms(1) by (simp add: execute_route_multiple)
  then show ?thesis
    using run_multiple_agents_keys [of env st w] run_multiple_agents_state [of env st w] by simp
qed

lemma process_query_Inr:
  assumes "process_query env query ctx callback w = (Inr result, w')"
  shows "\<exists>st1 w1 st2 w2.
           classify_intent env (initial_state query ctx)
             (start_keep_alive (w\<lparr>progress_callback := callback\<rparr>)) = (st1, w1)
         \<and> execute_route env (route_to_agents st1) st1 w1 = (Inr st2, w2)
         \<and> result = fst (from_decision env st2 w2)
         \<and> w' = stop_keep_alive (save_query_safely ctx (snd (from_decision env st2 w2)))"
  using assms
  by (auto simp: process_query_def graph_invoke_def split: prod.splits sum.splits)

lemma process_query_multiple:
  assumes "classify_intent env (initial_state query ctx)
             (start_keep_alive (w\<lparr>progress_callback := callback\<rparr>)) = (st1, w1)"
    and "intent_classification st1 \<notin> set known_agents"
  shows "process_query env query ctx callback w =
           (Inr (fst (from_decision env (fst (run_multiple_agents env st1 w1))
                        (snd (run_multiple_agents env st1 w1)))),
            stop_keep_alive (save_query_safely ctx
              (snd (from_decision env (fst (run_multiple_agents env st1 w1))
                        (snd (run_multiple_agents env st1 w1))))))"
  using assms
  by (simp add: process_query_def graph_invoke_def execute_route_multiple split: prod.splits)

lemma process_query_summary:
  assumes "process_query env query ctx callback w = (Inr result, w')"
  shows "fst ` set (agent_responses result) = set (agents_to_run result) \<inter> set known_agents"
    and "confidence_score result = verified_score env"
    and "require_human_feedback result = py_lt (verified_score env) (Fin (6 / 10))"
    and "\<exists>save. (save = [] \<or> save = [SaveRun]) \<and>
           calls w' = calls w @ OracleClassify
             # map AgentNode (filter (\<lambda>n. n \<in> set known_agents) (agents_to_run result))
             @ (if agent_responses result = [] then [] else [OracleDecision])
             @ OracleVerify # (if require_human_feedback result then [] else [NotifyCall])
             @ save"
proof -
  let ?w0 = "start_keep_alive (w\<lparr>progress_callback := callback\<rparr>)"
  let ?st0 = "initial_state query ctx"
  obtain st1 w1 st2 w2 where
    c: "classify_intent env ?st0 ?w0 = (st1, w1)"
    and e: "execute_route env (route_to_agents st1) st1 w1 = (Inr st2, w2)"
    and r: "result = fst (from_decision env st2 w2)"
    and w': "w' = stop_keep_alive (save_query_safely ctx (snd (from_decision env st2 w2)))"
    using process_query_Inr [OF assms] by blast
  have p: "agent_responses st1 = []"
    "intent_classification st1 \<in> set known_agents \<longrightarrow> agents_to_run st1 = [intent_classification st1]"
    using classify_intent_plan [of env ?st0 ?w0] c by simp_all
  have s2: "st2 = st1\<lparr>agent_responses := agent_responses st2\<rparr>"
    and k2: "fst ` set (agent_responses st2) = set (agents_to_run st1) \<inter> set known_agents"
    using execute_route_Inr [OF e p] by simp_all
  have a2: "agents_to_run st2 = agents_to_run st1"
    by (subst s2) simp
  have ar: "agent_responses result = agent_responses st2" "agents_to_run result = agents_to_run st2"
    using r by (simp_all add: from_decision_state)
  show "fst ` set (agent_responses result) = set (agents_to_run result) \<inter> set known_agents"
    using k2 a2 ar by simp
  show "confidence_score result = verified_score env"
    using r by (simp add: from_decision_state)
  show rq: "require_human_feedback result = py_lt (verified_score env) (Fin (6 / 10))"
    using r by (simp add: from_decision_state)
  have c1: "calls w1 = calls w @ [OracleClassify]"
    using classify_intent_calls [of env ?st0 ?w0] c by simp
  have c2: "calls w2 = calls w1 @ map AgentNode (filter (\<lambda>n. n \<in> set known_agents) (agents_to_run st1))"
    using execute_route_calls [OF p(2), of env w1] e by simp
  have c3: "calls (snd (from_decision env st2 w2)) =
     calls w2 @ (if agent_responses st2 = [] then [] else [OracleDecision])
       @ OracleVerify # (if py_lt (verified_score env) (Fin (6 / 10)) then [] else [NotifyCall])"
    by (rule from_decision_calls)
  from calls_save_query_safely [of ctx "snd (from_decision env st2 w2)"]
  obtain save where sv: "save = [] \<or> save = [SaveRun]"
    and c4: "calls (save_query_safely ctx (snd (from_decision env st2 w2))) =
        calls (snd (from_decision env st2 w2)) @ save"
    by auto
  have "calls w' = calls w @ OracleClassify
             # map AgentNode (filter (\<lambda>n. n \<in> set known_agents) (agents_to_run result))
             @ (if agent_responses result = [] then [] else [OracleDecision])
             @ OracleVerify # (if require_human_feedback result then [] else [NotifyCall])
             @ save"
    using w' c1 c2 c3 c4 a2 ar rq by simp
  then show "\<exists>save. (save = [] \<or> save = [SaveRun]) \<and>
           calls w' = calls w @ OracleClassify
             # map AgentNode (filter (\<lambda>n. n \<in> set known_agents) (agents_to_run result))
             @ (if agent_responses result = [] then [] else [OracleDecision])
             @ OracleVerify # (if require_human_feedback result then [] else [NotifyCall])
             @ save"
    using sv by blast
qed

lemma count_list_AgentNode [simp]: "count_list (map AgentNode names) NotifyCall = 0"
  by (induction names) simp_all

lemma count_list_append' : "count_list (xs @ ys) c = count_list xs c + count_list ys c"
  by (induction xs) simp_all

lemma process_query_notifications:
  assumes "process_query env query ctx callback w = (Inr result, w')"
  shows "count_list (calls w') NotifyCall =
           count_list (calls w) NotifyCall + (if require_human_feedback result then 0 else 1)"
proof -
  obtain save where "save = [] \<or> save = [SaveRun]"
    "calls w' = calls w @ OracleClassify
             # map AgentNode (filter (\<lambda>n. n \<in> set known_agents) (agents_to_run result))
             @ (if agent_responses result = [] then [] else [OracleDecision])
             @ OracleVerify # (if require_human_feedback result then [] else [NotifyCall])
             @ save"
    using process_query_summary(4) [OF assms] by blast
  then show ?thesis by (auto simp: count_list_append')
qed


subsection \<open>The example runs, evaluated\<close>

lemmas run_defs = process_query_def graph_invoke_def classify_intent_def classify_result_def
  initial_state_def new_orchestrator_def start_keep_alive_def schedule_keep_alive_def arm_timer_def
  stop_keep_alive_def send_progress_def record_call_def route_to_agents_def known_agents_def
  execute_route_def agent_map_def run_multiple_agents_def run_weather_agent_def
  run_pest_agent_def run_soil_agent_def agent_node_def error_response_def from_decision_def
  make_decision_def from_verifier_def verify_response_def after_check_confidence_def
  check_confidence_def confidence_check_def send_notifications_def py_min_def py_max_def
  save_query_safely_def classify_fallback_def summary_error_def

lemma example_run_value:
  "process_query example_env ''q'' [] True (new_orchestrator False) = (Inr example_result, example_trace)"
  by (simp add: run_defs example_env_def example_reply_def example_result_def example_trace_def)

lemma low_score_run_value:
  "process_query low_score_env ''q'' [] True (new_orchestrator False) = (Inr low_score_result, low_score_trace)"
  by (simp add: run_defs low_score_env_def example_env_def example_reply_def low_score_result_def
      low_score_trace_def example_result_def example_trace_def)

lemma null_confidence_run_value:
  "process_query null_confidence_env ''q'' [] True (new_orchestrator False) =
     (Inr null_confidence_result, null_confidence_trace)"
  by (simp add: run_defs null_confidence_env_def example_env_def null_confidence_result_def
      null_confidence_trace_def)


subsection \<open>The keep-alive timer and the stop\<close>

text \<open>
  Run in one piece, the timer function is harmless after a stop: a timer function that
  starts after \<open>_stop_keep_alive\<close> has returned emits nothing and arms no timer. Both
  exits of \<open>process_query\<close> go through \<open>_stop_keep_alive\<close>, which leaves the
  orchestrator with the keep-alive flag cleared and no timer armed.
\<close>

lemma send_keep_alive_after_stop: "send_keep_alive (stop_keep_alive w) = stop_keep_alive w"
  by (simp add: send_keep_alive_def stop_keep_alive_def Let_def)

lemma process_query_stops_keep_alive:
  "\<not> keep_alive_active (snd (process_query env query ctx callback w))
   \<and> \<not> keep_alive_timer (snd (process_query env query ctx callback w))"
  by (simp add: process_query_def stop_keep_alive_def Let_def split: prod.splits sum.splits)

lemma process_query_before_stop:
  "snd (process_query env query ctx callback w) = stop_keep_alive (before_stop env query ctx callback w)"
  by (simp add: process_query_def before_stop_def split: prod.splits sum.splits)

text \<open>
  The nodes of the graph leave the keep-alive flag and the registered callback alone, so
  the flag that \<open>_start_keep_alive\<close> sets is still set when the \<open>finally\<close> clause is
  reached: a timer function that tests the flag at any moment of the run up to there
  finds it set.
\<close>

lemma flags_agent_node:
  "agent_node name f out st w = (r, w') \<Longrightarrow>
     keep_alive_active w' = keep_alive_active w \<and> progress_callback w' = progress_callback w"
  by (auto simp: agent_node_def Let_def split: outcome.splits)

lemma flags_loop:
  "keep_alive_active (snd (snd (run_agents_loop env i names st acc w))) = keep_alive_active w
   \<and> progress_callback (snd (snd (run_agents_loop env i names st acc w))) = progress_callback w"
proof (induction names arbitrary: i st acc w)
  case Nil
  show ?case by simp
next
  case (Cons a names)
  show ?case
  proof (cases "map_of agent_map a")
    case None
    show ?thesis using Cons.IH [of "Suc i" st acc "send_progress ''warning'' w"]
      by (simp only: loop_step_unknown [OF None]) simp
  next
    case (Some run_agent)
    obtain r st' w' where
      "run_agents_loop env i (a # names) st acc w =
         run_agents_loop env (Suc i) names st' (AList.update a r acc) w'"
      "keep_alive_active w' = keep_alive_active w \<and> progress_callback w' = progress_callback w"
      using loop_step_known [OF Some, of env i names st acc w] by blast
    then show ?thesis using Cons.IH [of "Suc i" st' "AList.update a r acc" w'] by simp
  qed
qed

lemma flags_run_multiple_agents:
  "keep_alive_active (snd (run_multiple_agents env st w)) = keep_alive_active w
   \<and> progress_callback (snd (run_multiple_agents env st w)) = progress_callback w"
  using flags_loop [of env 1 "agents_to_run st" st "[]" "send_progress ''multiple_agents_start'' w"]
  by (simp add: run_multiple_agents_proj)

lemma flags_classify_intent:
  "keep_alive_active (snd (classify_intent env st w)) = keep_alive_active w
   \<and> progress_callback (snd (classify_intent env st w)) = progress_callback w"
  using classify_intent_cases [of env st w] by (auto simp: classify_fallback_def)

lemma flags_from_decision:
  "keep_alive_active (snd (from_decision env st w)) = keep_alive_active w
   \<and> progress_callback (snd (from_decision env st w)) = progress_callback w"
  by (simp add: from_decision_def make_decision_def from_verifier_def verify_response_eq
      after_check_confidence_def send_notifications_def Let_def split: option.splits)

lemma flags_execute_route:
  "keep_alive_active (snd (execute_route env route st w)) = keep_alive_active w
   \<and> progress_callback (snd (execute_route env route st w)) = progress_callback w"
proof (cases "map_of agent_map route")
  case None
  then show ?thesis using flags_run_multiple_agents [of env st w]
    by (cases "run_multiple_agents env st w") (simp add: execute_route_def)
next
  case (Some run_agent)
  then obtain f where "run_agent = agent_node route f"
    using map_of_agent_map by blast
  then show ?thesis
    using Some flags_agent_node [of route f "agent_outcome env 0 route" st w]
    by (cases "agent_node route f (agent_outcome env 0 route) st w") (simp add: execute_route_def)
qed

lemma flags_graph_invoke:
  "keep_alive_active (snd (graph_invoke env st w)) = keep_alive_active w
   \<and> progress_callback (snd (graph_invoke env st w)) = progress_callback w"
proof -
  obtain st1 w1 where c: "classify_intent env st w = (st1, w1)"
    by (cases "classify_intent env st w")
  obtain r w2 where e: "execute_route env (route_to_agents st1) st1 w1 = (r, w2)"
    by (cases "execute_route env (route_to_agents st1) st1 w1")
  have 1: "keep_alive_active w1 = keep_alive_active w \<and> progress_callback w1 = progress_callback w"
    using flags_classify_intent [of env st w] c by simp
  have 2: "keep_alive_active w2 = keep_alive_active w1 \<and> progress_callback w2 = progress_callback w1"
    using flags_execute_route [of env "route_to_agents st1" st1 w1] e by simp
  show ?thesis
  proof (cases r)
    case (Inl x)
    then show ?thesis using c e 1 2 by (simp add: graph_invoke_def)
  next
    case (Inr st2)
    then show ?thesis using c e 1 2 flags_from_decision [of env st2 w2]
      by (cases "from_decision env st2 w2") (simp add: graph_invoke_def)
  qed
qed

lemma flags_before_stop:
  "keep_alive_active (before_stop env query ctx callback w)
   \<and> progress_callback (before_stop env query ctx callback w) = callback"
proof -
  let ?w0 = "start_keep_alive (w\<lparr>progress_callback := callback\<rparr>)"
  have 0: "keep_alive_active ?w0 \<and> progress_callback ?w0 = callback"
    by (simp add: start_keep_alive_def schedule_keep_alive_def arm_timer_def)
  obtain r w1 where g: "graph_invoke env (initial_state query ctx) ?w0 = (r, w1)"
    by (cases "graph_invoke env (initial_state query ctx) ?w0")
  then have 1: "keep_alive_active w1 \<and> progress_callback w1 = callback"
    using flags_graph_invoke [of env "initial_state query ctx" ?w0] 0 by simp
  show ?thesis
  proof (cases r)
    case (Inl x)
    then show ?thesis using g 1 by (simp add: before_stop_def)
  next
    case (Inr result)
    then show ?thesis using g 1 by (simp add: before_stop_def save_query_safely_def)
  qed
qed

text \<open>
  So in every run with a callback, on either exit: the test of \<open>send_keep_alive\<close>
  succeeds on the orchestrator as the \<open>finally\<close> clause finds it; and when
  \<open>_stop_keep_alive\<close> runs next and the timer function then goes on, the event
  \<open>keep_alive\<close> is emitted after the stop. The test of \<open>_schedule_keep_alive\<close>
  succeeds there as well; when the stop runs before the timer is created, a timer is
  armed after the stop.
\<close>

lemma keep_alive_race:
  "keep_alive_active (before_stop env query ctx True w)
   \<and> events (emit_keep_alive (snd (process_query env query ctx True w))) =
       events (snd (process_query env query ctx True w)) @ [''keep_alive'']
   \<and> keep_alive_timer (arm_timer (snd (process_query env query ctx True w)))"
proof -
  let ?b = "before_stop env query ctx True w"
  have b: "keep_alive_active ?b" "progress_callback ?b"
    using flags_before_stop [of env query ctx True w] by simp_all
  have "events (emit_keep_alive (stop_keep_alive ?b)) = events (stop_keep_alive ?b) @ [''keep_alive'']"
    using b(2)
    by (simp add: emit_keep_alive_def schedule_keep_alive_def send_progress_def stop_keep_alive_def
        Let_def)
  then show ?thesis using b(1)
    by (simp add: process_query_before_stop arm_timer_def)
qed

text \<open>
  C8. In the first example run the pipeline has finished and the timer has fired: the
  timer thread evaluates the test of \<open>send_keep_alive\<close> on the orchestrator as the
  \<open>finally\<close> clause finds it, where the flag is set. The pipeline thread runs
  \<open>_stop_keep_alive\<close>, which clears the flag and ends \<open>process_query\<close>. The timer
  thread goes on with the rest of \<open>send_keep_alive\<close>: the event \<open>keep_alive\<close> is
  emitted after the stop, as the last event of the session. Run in one piece after the
  stop, \<open>send_keep_alive\<close> would have emitted nothing. In the same way a timer thread
  that has passed the test of \<open>_schedule_keep_alive\<close> before the stop arms a timer
  after it.
\<close>

theorem keep_alive_emitted_after_stop:
  "keep_alive_active (before_stop example_env ''q'' [] True (new_orchestrator False))
   \<and> snd (process_query example_env ''q'' [] True (new_orchestrator False)) =
       stop_keep_alive (before_stop example_env ''q'' [] True (new_orchestrator False))
   \<and> snd (process_query example_env ''q'' [] True (new_orchestrator False)) = example_trace
   \<and> \<not> keep_alive_active example_trace
   \<and> \<not> keep_alive_timer example_trace
   \<and> events (emit_keep_alive example_trace) = events example_trace @ [''keep_alive'']
   \<and> send_keep_alive example_trace = example_trace
   \<and> keep_alive_timer (arm_timer example_trace)"
proof -
  have "keep_alive_active (before_stop example_env ''q'' [] True (new_orchestrator False))"
    by (simp add: flags_before_stop)
  moreover have "snd (process_query example_env ''q'' [] True (new_orchestrator False)) = example_trace"
    by (simp add: example_run_value)
  moreover have "\<not> keep_alive_active example_trace \<and> \<not> keep_alive_timer example_trace
      \<and> events (emit_keep_alive example_trace) = events example_trace @ [''keep_alive'']
      \<and> send_keep_alive example_trace = example_trace
      \<and> keep_alive_timer (arm_timer example_trace)"
    by (simp add: example_trace_def emit_keep_alive_def send_keep_alive_def schedule_keep_alive_def
        send_progress_def arm_timer_def)
  moreover have "snd (process_query example_env ''q'' [] True (new_orchestrator False)) =
       stop_keep_alive (before_stop example_env ''q'' [] True (new_orchestrator False))"
    by (rule process_query_before_stop)
  ultimately show ?thesis
    by blast
qed

subsection \<open>The claims about the pipeline\<close>

lemma nodes_entered_trace:
  "(save = [] \<or> save = [SaveRun]) \<Longrightarrow>
   nodes_entered (old @ OracleClassify # map AgentNode names @ dec @ OracleVerify # notify @ save)
     = nodes_entered old @ names @ nodes_entered dec @ nodes_entered notify"
  by (auto simp: nodes_entered_append)

lemma process_query_nodes:
  assumes "process_query env query ctx callback w = (Inr result, w')"
  shows "nodes_entered (calls w') =
           nodes_entered (calls w) @ filter (\<lambda>n. n \<in> set known_agents) (agents_to_run result)"
proof -
  obtain save where "save = [] \<or> save = [SaveRun]"
    "calls w' = calls w @ OracleClassify
             # map AgentNode (filter (\<lambda>n. n \<in> set known_agents) (agents_to_run result))
             @ (if agent_responses result = [] then [] else [OracleDecision])
             @ OracleVerify # (if require_human_feedback result then [] else [NotifyCall])
             @ save"
    using process_query_summary(4) [OF assms] by blast
  then show ?thesis by (simp add: nodes_entered_trace)
qed

text \<open>
  C1. When the multi-agent stage returns, the keys of the session's result map are
  exactly the planned names that belong to the closed agent set, whatever the outcomes
  of the agents: an agent that raises still gets its entry, an unknown name gets none.
  The same holds for the session every returning run of \<open>process_query\<close> ends with,
  on the single-agent route as on the multi-agent route.
\<close>

theorem result_keys_are_planned_agents:
  "fst ` set (agent_responses (fst (run_multiple_agents env st w))) =
     set (agents_to_run st) \<inter> set known_agents
   \<and> (process_query env query ctx callback w0 = (Inr result, w') \<longrightarrow>
        fst ` set (agent_responses result) = set (agents_to_run result) \<inter> set known_agents)"
proof (intro conjI impI)
  show "fst ` set (agent_responses (fst (run_multiple_agents env st w))) =
     set (agents_to_run st) \<inter> set known_agents"
    by (rule run_multiple_agents_keys [THEN conjunct1])
  show "fst ` set (agent_responses result) = set (agents_to_run result) \<inter> set known_agents"
    if "process_query env query ctx callback w0 = (Inr result, w')"
    by (rule process_query_summary(1) [OF that])
qed

theorem result_keys_are_planned_agents_witness:
  "fst ` set (agent_responses (fst (run_multiple_agents example_env example_plan_state (new_orchestrator True))))
     = {''weather'', ''pest'', ''soil''}
   \<and> process_query example_env ''q'' [] True (new_orchestrator False) = (Inr example_result, example_trace)
   \<and> fst ` set (agent_responses example_result) = {''weather'', ''pest'', ''soil''}"
  using result_keys_are_planned_agents [of example_env example_plan_state "new_orchestrator True"
      "''q''" "[]" True "new_orchestrator False" example_result example_trace]
    example_run_value
  by (auto simp: example_plan_state_def known_agents_def example_result_def)

text \<open>
  C2. From the verifier on, the flag \<open>require_human_feedback\<close> of the resulting session
  is true exactly when its confidence score, the verified one, is strictly below 0.6;
  when it is true the only collaborator called from the verifier on is the
  verification oracle, so the notification stage is not entered. For a whole run that
  returns, the flag and the score of its session are related in the same way, and a
  run whose flag is true makes no notification call.
\<close>

theorem human_feedback_iff_low_score:
  "(require_human_feedback (fst (from_verifier env st w))
      \<longleftrightarrow> py_lt (confidence_score (fst (from_verifier env st w))) (Fin (6 / 10)))
   \<and> (require_human_feedback (fst (from_verifier env st w)) \<longrightarrow>
        calls (snd (from_verifier env st w)) = calls w @ [OracleVerify])
   \<and> (process_query env query ctx callback w0 = (Inr result, w') \<longrightarrow>
        (require_human_feedback result \<longleftrightarrow> py_lt (confidence_score result) (Fin (6 / 10)))
        \<and> (require_human_feedback result \<longrightarrow>
             count_list (calls w') NotifyCall = count_list (calls w0) NotifyCall))"
proof (intro conjI impI)
  show "require_human_feedback (fst (from_verifier env st w))
      \<longleftrightarrow> py_lt (confidence_score (fst (from_verifier env st w))) (Fin (6 / 10))"
    by (simp add: from_verifier_state)
  show "calls (snd (from_verifier env st w)) = calls w @ [OracleVerify]"
    if "require_human_feedback (fst (from_verifier env st w))"
    using that by (simp add: from_verifier_state from_verifier_calls)
next
  assume r: "process_query env query ctx callback w0 = (Inr result, w')"
  show "require_human_feedback result \<longleftrightarrow> py_lt (confidence_score result) (Fin (6 / 10))"
    using process_query_summary(2,3) [OF r] by simp
  show "count_list (calls w') NotifyCall = count_list (calls w0) NotifyCall"
    if "require_human_feedback result"
    using that process_query_notifications [OF r] by simp
qed

theorem human_feedback_iff_low_score_witness:
  "process_query low_score_env ''q'' [] True (new_orchestrator False) = (Inr low_score_result, low_score_trace)
   \<and> require_human_feedback low_score_result
   \<and> py_lt (confidence_score low_score_result) (Fin (6 / 10))
   \<and> count_list (calls low_score_trace) NotifyCall = 0
   \<and> require_human_feedback (fst (from_verifier low_score_env (initial_state ''q'' []) (new_orchestrator True)))
   \<and> calls (snd (from_verifier low_score_env (initial_state ''q'' []) (new_orchestrator True))) = [OracleVerify]"
  using human_feedback_iff_low_score [of low_score_env "initial_state ''q'' []" "new_orchestrator True"
      "''q''" "[]" True "new_orchestrator False" low_score_result low_score_trace]
    low_score_run_value
  by (simp add: from_verifier_state verified_score_def low_score_env_def example_env_def
      py_min_def py_max_def new_orchestrator_def low_score_result_def)

text \<open>
  C5. When the result map is empty as the synthesizer starts, the final answer is the
  fixed apology and the synthesizer calls no collaborator; the stages that follow leave
  the answer as it is, and the run from the synthesizer to its end makes no call to the
  generation oracle of the synthesizer.
\<close>

theorem empty_results_give_apology:
  assumes "agent_responses st = []"
  shows "final_response (fst (make_decision env st w)) = apology
       \<and> calls (snd (make_decision env st w)) = calls w
       \<and> final_response (fst (from_decision env st w)) = apology
       \<and> count_list (calls (snd (from_decision env st w))) OracleDecision = count_list (calls w) OracleDecision"
  using assms
  by (simp add: make_decision_empty from_decision_state from_decision_calls count_list_append')

theorem empty_results_give_apology_witness:
  "final_response (fst (make_decision example_env (initial_state ''q'' []) (new_orchestrator True))) = apology
   \<and> calls (snd (make_decision example_env (initial_state ''q'' []) (new_orchestrator True))) = []
   \<and> final_response (fst (from_decision example_env (initial_state ''q'' []) (new_orchestrator True))) = apology
   \<and> count_list (calls (snd (from_decision example_env (initial_state ''q'' []) (new_orchestrator True))))
        OracleDecision = 0"
  using empty_results_give_apology [of "initial_state ''q'' []" example_env "new_orchestrator True"]
  by (simp add: initial_state_def new_orchestrator_def)

lemma clamped_min_max:
  "v \<noteq> NaN \<Longrightarrow> clamped_to_unit v (py_min (py_max v (Fin 0)) (Fin 1))"
  by (cases v) (auto simp: py_min_def py_max_def clamped_to_unit_def in_unit_interval_def)

lemma clamped_in_unit: "clamped_to_unit v r \<Longrightarrow> in_unit_interval r"
  by (cases v) (auto simp: clamped_to_unit_def in_unit_interval_def split: if_splits)


lemma clamped_NaN: "\<not> clamped_to_unit NaN r"
  by (simp add: clamped_to_unit_def in_unit_interval_def)

lemma min_max_NaN: "py_min (py_max NaN (Fin 0)) (Fin 1) = NaN"
  by (simp add: py_min_def py_max_def)

text \<open>
  What \<open>verify_response\<close> stores. A reply that parses to a float other than NaN is
  stored clamped to the interval from 0 to 1. When the oracle call raises or the text
  does not parse, the stored score is exactly 0.7, the gate answers \<open>sufficient\<close>, and
  the notification call follows the verification call. A reply that parses to NaN is
  stored as NaN: \<open>max(nan, 0.0)\<close> and \<open>min(nan, 1.0)\<close> keep their first argument, as no
  comparison with NaN holds; NaN is not below 0.6, so the gate answers \<open>sufficient\<close>.
\<close>

lemma verifier_score_clamped:
  assumes "verify_oracle env = Some text" and "float_of_str env text = Some v" and "v \<noteq> NaN"
  shows "clamped_to_unit v (confidence_score (fst (verify_response env st w)))
       \<and> in_unit_interval (confidence_score (fst (verify_response env st w)))"
proof -
  have "verified_score env = py_min (py_max v (Fin 0)) (Fin 1)"
    using assms(1,2) by (simp add: verified_score_def)
  then have "clamped_to_unit v (confidence_score (fst (verify_response env st w)))"
    using assms(3) by (simp add: verify_response_eq clamped_min_max)
  then show ?thesis by (simp add: clamped_in_unit)
qed

lemma verifier_score_default:
  assumes "verify_oracle env = None
        \<or> (\<exists>text. verify_oracle env = Some text \<and> float_of_str env text = None)"
  shows "confidence_score (fst (verify_response env st w)) = Fin (7 / 10)
      \<and> confidence_check (check_confidence (fst (verify_response env st w))) = ''sufficient''
      \<and> calls (snd (from_verifier env st w)) = calls w @ [OracleVerify, NotifyCall]"
proof -
  have s: "verified_score env = Fin (7 / 10)"
    using assms by (auto simp: verified_score_def)
  then show ?thesis
    by (simp add: verify_response_eq check_confidence_def confidence_check_def from_verifier_calls)
qed

lemma verifier_score_NaN:
  assumes "verify_oracle env = Some text" and "float_of_str env text = Some NaN"
  shows "confidence_score (fst (verify_response env st w)) = NaN
      \<and> confidence_check (check_confidence (fst (verify_response env st w))) = ''sufficient''
      \<and> calls (snd (from_verifier env st w)) = calls w @ [OracleVerify, NotifyCall]"
proof -
  have s: "verified_score env = NaN"
    using assms by (simp add: verified_score_def min_max_NaN)
  then show ?thesis
    by (simp add: verify_response_eq check_confidence_def confidence_check_def from_verifier_calls)
qed

lemma verifier_examples:
  "confidence_score (fst (verify_response example_env (initial_state ''q'' []) (new_orchestrator True)))
     = Fin (8 / 10)
   \<and> confidence_score (fst (verify_response high_score_env (initial_state ''q'' []) (new_orchestrator True)))
     = Fin 1
   \<and> confidence_score (fst (verify_response outage_env (initial_state ''q'' []) (new_orchestrator True)))
     = Fin (7 / 10)
   \<and> calls (snd (from_verifier outage_env (initial_state ''q'' []) (new_orchestrator True)))
     = [OracleVerify, NotifyCall]"
  by (simp add: verify_response_eq from_verifier_calls verified_score_def example_env_def
      high_score_env_def outage_env_def py_min_def py_max_def new_orchestrator_def)

text \<open>
  C6. The verifier replies \<open>nan\<close>, which \<open>float\<close> parses. The score
  \<open>verify_response\<close> stores is NaN: it is not in the interval from 0 to 1 and it is
  not the reply's value clamped to that interval, although the source applies
  \<open>min(max(confidence, 0.0), 1.0)\<close> to it. The gate then reads the NaN as
  \<open>sufficient\<close>: no human feedback is asked for and the notification call is made.
\<close>

theorem verifier_stores_nan:
  "verify_oracle nan_env = Some ''nan''
   \<and> float_of_str nan_env ''nan'' = Some NaN
   \<and> confidence_score (fst (verify_response nan_env (initial_state ''q'' []) (new_orchestrator True))) = NaN
   \<and> \<not> in_unit_interval
         (confidence_score (fst (verify_response nan_env (initial_state ''q'' []) (new_orchestrator True))))
   \<and> \<not> clamped_to_unit NaN
         (confidence_score (fst (verify_response nan_env (initial_state ''q'' []) (new_orchestrator True))))
   \<and> \<not> require_human_feedback (fst (from_verifier nan_env (initial_state ''q'' []) (new_orchestrator True)))
   \<and> calls (snd (from_verifier nan_env (initial_state ''q'' []) (new_orchestrator True)))
       = [OracleVerify, NotifyCall]"
  by (simp add: verify_response_eq from_verifier_state from_verifier_calls verified_score_def
      nan_env_def example_env_def py_min_def py_max_def new_orchestrator_def in_unit_interval_def
      clamped_to_unit_def)

subsection \<open>Runs on the multi-agent route\<close>

lemma process_query_multiple_result:
  assumes c: "classify_intent env (initial_state query ctx)
             (start_keep_alive (w\<lparr>progress_callback := callback\<rparr>)) = (st1, w1)"
    and m: "intent_classification st1 \<notin> set known_agents"
  shows "\<exists>result w'. process_query env query ctx callback w = (Inr result, w')
           \<and> intent_classification result = intent_classification st1
           \<and> agents_to_run result = agents_to_run st1
           \<and> agent_responses result = agent_responses (fst (run_multiple_agents env st1 w1))
           \<and> final_response result =
               final_response (fst (make_decision env (fst (run_multiple_agents env st1 w1))
                                      (snd (run_multiple_agents env st1 w1))))"
proof -
  let ?st2 = "fst (run_multiple_agents env st1 w1)"
  let ?w2 = "snd (run_multiple_agents env st1 w1)"
  let ?result = "fst (from_decision env ?st2 ?w2)"
  have s2: "?st2 = st1\<lparr>agent_responses := agent_responses ?st2\<rparr>"
    by (rule run_multiple_agents_state)
  have "intent_classification ?st2 = intent_classification st1" "agents_to_run ?st2 = agents_to_run st1"
    by (subst s2, simp)+
  then have "intent_classification ?result = intent_classification st1"
    "agents_to_run ?result = agents_to_run st1"
    "agent_responses ?result = agent_responses ?st2"
    "final_response ?result = final_response (fst (make_decision env ?st2 ?w2))"
    by (simp_all add: from_decision_state)
  then show ?thesis using process_query_multiple [OF c m] by simp
qed

lemma keys_empty: "fst ` set al = {} \<Longrightarrow> al = []"
  by simp

subsection \<open>Failure isolation\<close>






subsection \<open>The classifier\<close>

text \<open>
  C4. If the classification oracle call raises, or its text is not JSON, then
  \<open>classify_intent\<close> returns with the plan weather, soil, the confidence exactly 0.5
  and the label \<open>multiple\<close>; and the run does not fail: \<open>process_query\<close> returns a
  session, which carries that label and that plan.
\<close>

theorem classification_fallback:
  assumes "classify_oracle env = None
         \<or> (\<exists>text. classify_oracle env = Some text \<and> json_loads env text = None)"
  shows "agents_to_run (fst (classify_intent env st w)) = [''weather'', ''soil'']
       \<and> confidence_score (fst (classify_intent env st w)) = Fin (1 / 2)
       \<and> intent_classification (fst (classify_intent env st w)) = ''multiple''
       \<and> (\<exists>result w'. process_query env query ctx callback w = (Inr result, w')
             \<and> intent_classification result = ''multiple''
             \<and> agents_to_run result = [''weather'', ''soil''])"
proof -
  have f: "\<And>st w. classify_intent env st w =
         classify_fallback st (record_call OracleClassify (send_progress ''agent_start'' w))"
    using assms by (rule classify_intent_fallback)
  have m: "''multiple'' \<notin> set known_agents" by (simp add: known_agents_def)
  let ?w0 = "start_keep_alive (w\<lparr>progress_callback := callback\<rparr>)"
  obtain st1 w1 where c: "classify_intent env (initial_state query ctx) ?w0 = (st1, w1)"
    by (cases "classify_intent env (initial_state query ctx) ?w0")
  then have st1: "intent_classification st1 = ''multiple''" "agents_to_run st1 = [''weather'', ''soil'']"
    using f [of "initial_state query ctx" ?w0] by (auto simp: classify_fallback_def)
  then have "intent_classification st1 \<notin> set known_agents" using m by simp
  from process_query_multiple_result [OF c this] st1
  have "\<exists>result w'. process_query env query ctx callback w = (Inr result, w')
             \<and> intent_classification result = ''multiple''
             \<and> agents_to_run result = [''weather'', ''soil'']"
    by auto
  then show ?thesis by (simp add: f classify_fallback_def)
qed

theorem classification_fallback_witness:
  "agents_to_run (fst (classify_intent outage_env (initial_state ''q'' []) (new_orchestrator True)))
     = [''weather'', ''soil'']
   \<and> confidence_score (fst (classify_intent outage_env (initial_state ''q'' []) (new_orchestrator True)))
     = Fin (1 / 2)
   \<and> intent_classification (fst (classify_intent outage_env (initial_state ''q'' []) (new_orchestrator True)))
     = ''multiple''
   \<and> (\<exists>result w'. process_query outage_env ''q'' [] True (new_orchestrator True) = (Inr result, w')
         \<and> intent_classification result = ''multiple''
         \<and> agents_to_run result = [''weather'', ''soil''])"
  using classification_fallback [of outage_env "initial_state ''q'' []" "new_orchestrator True" "''q''" "[]" True]
  by (simp add: outage_env_def example_env_def example_reply_text_def)



lemma classify_result_well_formed:
  assumes "map_of kvs ''agents_needed'' = Some (JArr (map JStr names))
         \<or> (map_of kvs ''agents_needed'' = None \<and> names = [])"
    and "py_float pf pn (case map_of kvs ''confidence'' of Some v \<Rightarrow> v | None \<Rightarrow> JFloat (Fin (1 / 2))) = Some c"
  shows "classify_result pf pn (JObj kvs) =
           Some (case names of [name] \<Rightarrow> name | _ \<Rightarrow> ''multiple'', names, c)"
proof -
  have an: "(case map_of kvs ''agents_needed'' of Some v \<Rightarrow> v | None \<Rightarrow> JArr []) = JArr (map JStr names)"
    using assms(1) by auto
  show ?thesis
  proof (cases names)
    case Nil
    then show ?thesis using an assms(2) by (simp add: classify_result_def)
  next
    case (Cons n ns)
    then show ?thesis using an assms(2)
      by (cases ns) (simp_all add: classify_result_def)
  qed
qed




text \<open>
  When \<open>float\<close> raises on the reply's confidence, the classifier falls back, whatever
  the plan of the reply: on \<open>null\<close>, a list, a dict, a string that is no number, and on
  an integer beyond the range of floats such as \<open>10 ^ 400\<close>.
\<close>

lemma classify_intent_no_float:
  assumes "classify_oracle env = Some text"
    and "json_loads env text = Some (JObj kvs)"
    and "py_float (float_of_str env) (float_of_int env)
           (case map_of kvs ''confidence'' of Some v \<Rightarrow> v | None \<Rightarrow> JFloat (Fin (1 / 2))) = None"
  shows "classify_intent env st w =
           classify_fallback st (record_call OracleClassify (send_progress ''agent_start'' w))"
proof -
  have "classify_result (float_of_str env) (float_of_int env) (JObj kvs) = None"
    using assms(3) by (simp add: classify_result_def split: sum.splits option.splits)
  then show ?thesis using assms(1,2) by (simp add: classify_intent_def)
qed

lemma huge_confidence_falls_back:
  "classify_intent huge_confidence_env st w =
     classify_fallback st (record_call OracleClassify (send_progress ''agent_start'' w))"
proof -
  have "float_of_int huge_confidence_env (10 ^ 400) = None"
    by (simp add: huge_confidence_env_def example_env_def example_float_of_int_def)
  then show ?thesis
    using classify_intent_no_float [of huge_confidence_env huge_confidence_text
        "[(''agents_needed'', JArr []), (''confidence'', JInt (10 ^ 400))]" st w]
    by (simp add: huge_confidence_env_def)
qed

text \<open>
  C9, as amended. Let the classification oracle return a JSON object whose
  \<open>agents_needed\<close> is the empty list and on whose \<open>confidence\<close> \<open>float\<close> returns (or
  whose \<open>confidence\<close> is absent); \<open>float\<close> returns on a float, a boolean, a string that
  reads as a number and an integer within the range of floats, and raises on anything
  else. Then the run returns a session with the label \<open>multiple\<close>, an empty plan, an
  empty result map and the fixed apology as its final answer, and no agent node is
  entered.
\<close>

theorem empty_plan_gives_apology:
  assumes "classify_oracle env = Some text"
    and "json_loads env text = Some (JObj kvs)"
    and "map_of kvs ''agents_needed'' = Some (JArr [])"
    and "py_float (float_of_str env) (float_of_int env)
           (case map_of kvs ''confidence'' of Some v \<Rightarrow> v | None \<Rightarrow> JFloat (Fin (1 / 2))) = Some c"
  shows "\<exists>result w'. process_query env query ctx callback w = (Inr result, w')
           \<and> intent_classification result = ''multiple''
           \<and> agents_to_run result = []
           \<and> agent_responses result = []
           \<and> final_response result = apology
           \<and> nodes_entered (calls w') = nodes_entered (calls w)"
proof -
  let ?w0 = "start_keep_alive (w\<lparr>progress_callback := callback\<rparr>)"
  let ?st0 = "initial_state query ctx"
  have "map_of kvs ''agents_needed'' = Some (JArr (map JStr []))
         \<or> (map_of kvs ''agents_needed'' = None \<and> [] = ([] :: string list))"
    using assms(3) by simp
  from classify_result_well_formed [OF this assms(4)]
  have "classify_result (float_of_str env) (float_of_int env) (JObj kvs) = Some (''multiple'', [], c)"
    by simp
  then obtain st1 w1 where c: "classify_intent env ?st0 ?w0 = (st1, w1)"
    and st1: "intent_classification st1 = ''multiple''" "agents_to_run st1 = []"
    using assms(1,2) by (simp add: classify_intent_def)
  have m: "intent_classification st1 \<notin> set known_agents"
    using st1 by (simp add: known_agents_def)
  let ?st2 = "fst (run_multiple_agents env st1 w1)"
  have e: "agent_responses ?st2 = []"
    using run_multiple_agents_keys [of env st1 w1] st1 by simp
  obtain result w' where r: "process_query env query ctx callback w = (Inr result, w')"
    and f: "intent_classification result = intent_classification st1"
      "agents_to_run result = agents_to_run st1"
      "agent_responses result = agent_responses ?st2"
      "final_response result =
         final_response (fst (make_decision env ?st2 (snd (run_multiple_agents env st1 w1))))"
    using process_query_multiple_result [OF c m] by blast
  have "final_response result = apology"
    using f(4) e by (simp add: make_decision_empty)
  moreover have "nodes_entered (calls w') = nodes_entered (calls w)"
    using process_query_nodes [OF r] f(2) st1 by simp
  ultimately show ?thesis using r f st1 e by simp
qed


theorem empty_plan_gives_apology_witness:
  "\<exists>result w'. process_query empty_plan_env ''q'' [] True (new_orchestrator True) = (Inr result, w')
     \<and> intent_classification result = ''multiple''
     \<and> agents_to_run result = []
     \<and> agent_responses result = []
     \<and> final_response result = apology
     \<and> nodes_entered (calls w') = []"
  using empty_plan_gives_apology [of empty_plan_env empty_plan_text
      "[(''agents_needed'', JArr []), (''confidence'', JFloat (Fin (9 / 10)))]" "Fin (9 / 10)"
      "''q''" "[]" True "new_orchestrator True"]
  by (simp add: empty_plan_env_def example_env_def new_orchestrator_def)

text \<open>
  An empty plan does not always end in the apology: when the reply's confidence is
  \<open>null\<close>, \<open>float\<close> raises after the plan has been read, the fallback plan
  replaces it, and the weather and soil agents run.
\<close>

theorem empty_plan_counterexample:
  "process_query null_confidence_env ''q'' [] True (new_orchestrator False) =
     (Inr null_confidence_result, null_confidence_trace)
   \<and> agents_to_run null_confidence_result = [''weather'', ''soil'']
   \<and> nodes_entered (calls null_confidence_trace) = [''weather'', ''soil'']
   \<and> agent_responses null_confidence_result \<noteq> []
   \<and> final_response null_confidence_result = ''answer''
   \<and> final_response null_confidence_result \<noteq> apology"
  using null_confidence_run_value
  by (simp add: null_confidence_result_def null_confidence_trace_def apology_def)

section \<open>Properties of the progress tracker\<close>

lemma add_message_inactive: "\<not> is_active t \<Longrightarrow> add_message now1 now2 msg ev t = t"
  by (simp add: add_message_def)

lemma add_messages_inactive: "\<not> is_active t \<Longrightarrow> add_messages cs t = t"
  by (induction cs t rule: add_messages.induct) (simp_all add: add_message_inactive)

text \<open>
  C10. Once \<open>stop\<close> has run the tracker is inactive, and on an inactive tracker every
  \<open>add_message\<close> call, and so every sequence of such calls, returns the tracker
  unchanged: the queue the consumer reads and the last-activity time stay as they were.
\<close>

theorem add_message_after_stop_is_noop:
  "\<not> is_active (stop t)
   \<and> (\<not> is_active t \<longrightarrow>
        add_message now1 now2 msg ev t = t
        \<and> message_queue (add_messages cs t) = message_queue t
        \<and> last_activity (add_messages cs t) = last_activity t)
   \<and> add_messages cs (stop t) = stop t"
  by (simp add: add_message_inactive add_messages_inactive stop_def)

theorem add_message_after_stop_is_noop_witness:
  "add_messages [(7, 8, ''late'', ''progress''), (9, 9, ''later'', ''keep_alive'')]
     (stop (add_message 1 2 ''first'' ''progress'' (new_tracker 0)))
   = \<lparr>message_queue = [\<lparr>message = ''first'', event = ''progress'', timestamp = 2\<rparr>],
      is_active = False, last_activity = 1\<rparr>"
  using add_message_after_stop_is_noop
    [of "add_message 1 2 ''first'' ''progress'' (new_tracker 0)" 7 8 "''late''" "''progress''"
        "[(7, 8, ''late'', ''progress''), (9, 9, ''later'', ''keep_alive'')]"]
  by (simp add: stop_def add_message_def new_tracker_def)

end
